theory Spec2Isabelle
  imports Main "HOL-Library.Word"
begin

section \<open>The BargainFHE contract: data model\<close>

text \<open>
  Solidity value types.  An \<open>address\<close> is 160 bits wide and \<open>address(0)\<close> is the word
  \<open>0\<close>; \<open>bytes32\<close> and \<open>uint256\<close> are 256 bits wide; \<open>bytes\<close> is a byte string.  The
  library types \<open>euint32\<close> and \<open>externalEuint32\<close> are user-defined value types over
  \<open>bytes32\<close>.  The contract performs no arithmetic on any of them: it compares
  (\<open>==\<close>, \<open>>\<close>, \<open>>=\<close>, all unsigned) and stores.
\<close>

type_synonym address = "160 word"
type_synonym bytes32 = "256 word"
type_synonym uint256 = "256 word"
type_synonym bytes = "8 word list"
type_synonym euint32 = "256 word"
type_synonym externalEuint32 = "256 word"

text \<open>\<open>struct BargainSession\<close>, field by field.\<close>

record BargainSession =
  buyer :: address
  seller :: address
  encryptedBuyerPrice :: euint32
  encryptedSellerPrice :: euint32
  publicBuyerPrice :: uint256
  publicSellerPrice :: uint256
  buyerRevealed :: bool
  sellerRevealed :: bool
  dealMatched :: bool
  timestamp :: uint256

text \<open>The three events of the contract; the log is the list of emitted events, oldest first.\<close>

datatype event =
  SessionCreated bytes32 address address
| PriceRevealed bytes32 address uint256
| DealMatched bytes32 uint256

text \<open>
  Contract storage: \<open>mapping(bytes32 => BargainSession) sessions\<close> is a total function
  (a Solidity mapping returns the all-zero struct at a key never written) and
  \<open>bytes32[] sessionIds\<close> is a list.  The event log is carried along with the storage.
\<close>

record contract =
  sessions :: "bytes32 \<Rightarrow> BargainSession"
  sessionIds :: "bytes32 list"
  events :: "event list"

definition zero_session :: BargainSession where
  "zero_session =
     \<lparr>buyer = 0, seller = 0, encryptedBuyerPrice = 0, encryptedSellerPrice = 0,
      publicBuyerPrice = 0, publicSellerPrice = 0, buyerRevealed = False,
      sellerRevealed = False, dealMatched = False, timestamp = 0\<rparr>"

text \<open>The state after the (empty) constructor.\<close>

definition init_contract :: contract where
  "init_contract = \<lparr>sessions = (\<lambda>_. zero_session), sessionIds = [], events = []\<rparr>"

text \<open>The part of the transaction context the contract reads: \<open>msg.sender\<close>, \<open>block.timestamp\<close>.\<close>

record msg_ctx =
  msg_sender :: address
  block_timestamp :: uint256

text \<open>
  What the contract imports and does not define: \<open>keccak256(abi.encodePacked(address,
  uint256))\<close> and the functions of \<open>FHE.sol\<close>.  They are parameters of the model.
  \<open>FHE.fromExternal\<close> verifies an input proof for the caller and reverts inside the
  library when it rejects it (\<open>None\<close>); \<open>FHE.allowThis\<close> calls the access-control
  contract and \<open>FHE.checkSignatures\<close> the decryption verifier, each of which reverts when
  it refuses (\<open>False\<close>).
\<close>

record fhe =
  keccak256_packed :: "address \<Rightarrow> uint256 \<Rightarrow> bytes32"
  FHE_fromExternal :: "address \<Rightarrow> externalEuint32 \<Rightarrow> bytes \<Rightarrow> euint32 option"
  FHE_isInitialized :: "euint32 \<Rightarrow> bool"
  FHE_allowThis :: "euint32 \<Rightarrow> bool"
  FHE_toBytes32 :: "euint32 \<Rightarrow> bytes32"
  FHE_checkSignatures :: "bytes32 list \<Rightarrow> bytes \<Rightarrow> bytes \<Rightarrow> bool"

text \<open>
  Every way a call can revert.  The first nine are the \<open>require\<close> messages of the
  contract, in the order of the source; the last four are reverts raised below it.
\<close>

datatype error =
  SessionAlreadyExists      \<comment> \<open>"Session already exists"\<close>
| InvalidBuyerEncryption    \<comment> \<open>"Invalid buyer encryption"\<close>
| InvalidSellerEncryption   \<comment> \<open>"Invalid seller encryption"\<close>
| SessionDoesNotExist       \<comment> \<open>"Session does not exist"\<close>
| SessionAlreadyJoined      \<comment> \<open>"Session already joined"\<close>
| OnlyBuyerCanReveal        \<comment> \<open>"Only buyer can reveal"\<close>
| BuyerAlreadyRevealed      \<comment> \<open>"Buyer already revealed"\<close>
| OnlySellerCanReveal       \<comment> \<open>"Only seller can reveal"\<close>
| SellerAlreadyRevealed     \<comment> \<open>"Seller already revealed"\<close>
| InputProofRejected        \<comment> \<open>revert inside \<open>FHE.fromExternal\<close>\<close>
| AclRejected               \<comment> \<open>revert inside \<open>FHE.allowThis\<close>\<close>
| InvalidDecryptionProof    \<comment> \<open>revert inside \<open>FHE.checkSignatures\<close>\<close>
| AbiDecodeError            \<comment> \<open>revert of \<open>abi.decode\<close> on fewer than 32 bytes\<close>

text \<open>
  A function body maps the storage to a result and the storage at the point where it
  returned or reverted.  \<open>transact\<close> is the EVM around it: a revert discards every write
  and every event of the call.
\<close>

type_synonym 'a body = "contract \<Rightarrow> (error + 'a) \<times> contract"

definition transact :: "'a body \<Rightarrow> 'a body" where
  "transact f s = (case f s of (Inl e, _) \<Rightarrow> (Inl e, s) | (Inr v, s') \<Rightarrow> (Inr v, s'))"

definition emit :: "event \<Rightarrow> contract \<Rightarrow> contract" where
  "emit e s = s\<lparr>events := events s @ [e]\<rparr>"

text \<open>A write to fields of \<open>sessions[sessionId]\<close>.\<close>

definition store_session :: "bytes32 \<Rightarrow> (BargainSession \<Rightarrow> BargainSession) \<Rightarrow> contract \<Rightarrow> contract" where
  "store_session sessionId f s = s\<lparr>sessions := (sessions s)(sessionId := f (sessions s sessionId))\<rparr>"

text \<open>
  \<open>abi.decode(data, (uint256))\<close>: reverts on fewer than 32 bytes, otherwise reads the
  first 32 bytes as a big-endian number and ignores the rest.
\<close>

definition be_uint256 :: "bytes \<Rightarrow> uint256" where
  "be_uint256 bs = foldl (\<lambda>acc b. acc * 256 + ucast b) 0 bs"

definition abi_decode_uint256 :: "bytes \<Rightarrow> uint256 option" where
  "abi_decode_uint256 bs = (if length bs < 32 then None else Some (be_uint256 (take 32 bs)))"

section \<open>The functions of the contract\<close>

definition createSession ::
  "fhe \<Rightarrow> msg_ctx \<Rightarrow> externalEuint32 \<Rightarrow> externalEuint32 \<Rightarrow> bytes \<Rightarrow> bytes \<Rightarrow> uint256 \<Rightarrow> uint256
     \<Rightarrow> bytes32 body" where
  "createSession lib m extBuyerPrice extSellerPrice buyerProof sellerProof pubBuyerPrice pubSellerPrice s =
    (let sessionId = keccak256_packed lib (msg_sender m) (block_timestamp m) in
     if timestamp (sessions s sessionId) \<noteq> 0 then (Inl SessionAlreadyExists, s) else
     case FHE_fromExternal lib (msg_sender m) extBuyerPrice buyerProof of
       None \<Rightarrow> (Inl InputProofRejected, s)
     | Some encryptedBuyer \<Rightarrow>
     case FHE_fromExternal lib (msg_sender m) extSellerPrice sellerProof of
       None \<Rightarrow> (Inl InputProofRejected, s)
     | Some encryptedSeller \<Rightarrow>
     if \<not> FHE_isInitialized lib encryptedBuyer then (Inl InvalidBuyerEncryption, s) else
     if \<not> FHE_isInitialized lib encryptedSeller then (Inl InvalidSellerEncryption, s) else
     let s1 = store_session sessionId (\<lambda>_.
                \<lparr>buyer = msg_sender m, seller = 0,
                 encryptedBuyerPrice = encryptedBuyer, encryptedSellerPrice = encryptedSeller,
                 publicBuyerPrice = pubBuyerPrice, publicSellerPrice = pubSellerPrice,
                 buyerRevealed = False, sellerRevealed = False, dealMatched = False,
                 timestamp = block_timestamp m\<rparr>) s in
     if \<not> FHE_allowThis lib encryptedBuyer then (Inl AclRejected, s1) else
     if \<not> FHE_allowThis lib encryptedSeller then (Inl AclRejected, s1) else
     let s2 = s1\<lparr>sessionIds := sessionIds s1 @ [sessionId]\<rparr>;
         s3 = emit (SessionCreated sessionId (msg_sender m) 0) s2
     in (Inr sessionId, s3))"

definition joinSession ::
  "fhe \<Rightarrow> msg_ctx \<Rightarrow> bytes32 \<Rightarrow> externalEuint32 \<Rightarrow> bytes \<Rightarrow> uint256 \<Rightarrow> unit body" where
  "joinSession lib m sessionId extSellerPrice sellerProof pubSellerPrice s =
    (if \<not> timestamp (sessions s sessionId) > 0 then (Inl SessionDoesNotExist, s) else
     if seller (sessions s sessionId) \<noteq> 0 then (Inl SessionAlreadyJoined, s) else
     case FHE_fromExternal lib (msg_sender m) extSellerPrice sellerProof of
       None \<Rightarrow> (Inl InputProofRejected, s)
     | Some encryptedSeller \<Rightarrow>
     if \<not> FHE_isInitialized lib encryptedSeller then (Inl InvalidSellerEncryption, s) else
     let s1 = store_session sessionId (\<lambda>r. r\<lparr>seller := msg_sender m\<rparr>) s;
         s2 = store_session sessionId (\<lambda>r. r\<lparr>encryptedSellerPrice := encryptedSeller\<rparr>) s1;
         s3 = store_session sessionId (\<lambda>r. r\<lparr>publicSellerPrice := pubSellerPrice\<rparr>) s2 in
     if \<not> FHE_allowThis lib encryptedSeller then (Inl AclRejected, s3) else
     (Inr (), emit (SessionCreated sessionId (buyer (sessions s3 sessionId)) (msg_sender m)) s3))"

text \<open>\<open>checkDeal\<close> is internal and cannot revert.\<close>

definition checkDeal :: "bytes32 \<Rightarrow> contract \<Rightarrow> contract" where
  "checkDeal sessionId s =
    (if publicBuyerPrice (sessions s sessionId) \<ge> publicSellerPrice (sessions s sessionId)
     then emit (DealMatched sessionId (publicSellerPrice (sessions s sessionId)))
            (store_session sessionId (\<lambda>r. r\<lparr>dealMatched := True\<rparr>) s)
     else s)"

definition revealBuyerPrice :: "fhe \<Rightarrow> msg_ctx \<Rightarrow> bytes32 \<Rightarrow> bytes \<Rightarrow> bytes \<Rightarrow> unit body" where
  "revealBuyerPrice lib m sessionId abiEncodedClearValue decryptionProof s =
    (if \<not> timestamp (sessions s sessionId) > 0 then (Inl SessionDoesNotExist, s) else
     if msg_sender m \<noteq> buyer (sessions s sessionId) then (Inl OnlyBuyerCanReveal, s) else
     if buyerRevealed (sessions s sessionId) then (Inl BuyerAlreadyRevealed, s) else
     let cts = [FHE_toBytes32 lib (encryptedBuyerPrice (sessions s sessionId))] in
     if \<not> FHE_checkSignatures lib cts abiEncodedClearValue decryptionProof
     then (Inl InvalidDecryptionProof, s) else
     case abi_decode_uint256 abiEncodedClearValue of
       None \<Rightarrow> (Inl AbiDecodeError, s)
     | Some revealedPrice \<Rightarrow>
     let s1 = store_session sessionId (\<lambda>r. r\<lparr>publicBuyerPrice := revealedPrice\<rparr>) s;
         s2 = store_session sessionId (\<lambda>r. r\<lparr>buyerRevealed := True\<rparr>) s1;
         s3 = emit (PriceRevealed sessionId (msg_sender m) revealedPrice) s2
     in if sellerRevealed (sessions s3 sessionId) then (Inr (), checkDeal sessionId s3)
        else (Inr (), s3))"

definition revealSellerPrice :: "fhe \<Rightarrow> msg_ctx \<Rightarrow> bytes32 \<Rightarrow> bytes \<Rightarrow> bytes \<Rightarrow> unit body" where
  "revealSellerPrice lib m sessionId abiEncodedClearValue decryptionProof s =
    (if \<not> timestamp (sessions s sessionId) > 0 then (Inl SessionDoesNotExist, s) else
     if msg_sender m \<noteq> seller (sessions s sessionId) then (Inl OnlySellerCanReveal, s) else
     if sellerRevealed (sessions s sessionId) then (Inl SellerAlreadyRevealed, s) else
     let cts = [FHE_toBytes32 lib (encryptedSellerPrice (sessions s sessionId))] in
     if \<not> FHE_checkSignatures lib cts abiEncodedClearValue decryptionProof
     then (Inl InvalidDecryptionProof, s) else
     case abi_decode_uint256 abiEncodedClearValue of
       None \<Rightarrow> (Inl AbiDecodeError, s)
     | Some revealedPrice \<Rightarrow>
     let s1 = store_session sessionId (\<lambda>r. r\<lparr>publicSellerPrice := revealedPrice\<rparr>) s;
         s2 = store_session sessionId (\<lambda>r. r\<lparr>sellerRevealed := True\<rparr>) s1;
         s3 = emit (PriceRevealed sessionId (msg_sender m) revealedPrice) s2
     in if buyerRevealed (sessions s3 sessionId) then (Inr (), checkDeal sessionId s3)
        else (Inr (), s3))"

text \<open>The \<open>view\<close> and \<open>pure\<close> functions: they read the storage and cannot write it.\<close>

definition getEncryptedPrices :: "bytes32 \<Rightarrow> contract \<Rightarrow> error + euint32 \<times> euint32" where
  "getEncryptedPrices sessionId s =
    (if \<not> timestamp (sessions s sessionId) > 0 then Inl SessionDoesNotExist
     else Inr (encryptedBuyerPrice (sessions s sessionId), encryptedSellerPrice (sessions s sessionId)))"

definition getSession ::
  "bytes32 \<Rightarrow> contract \<Rightarrow> error + address \<times> address \<times> uint256 \<times> uint256 \<times> bool \<times> bool \<times> bool \<times> uint256" where
  "getSession sessionId s =
    (if \<not> timestamp (sessions s sessionId) > 0 then Inl SessionDoesNotExist
     else let session = sessions s sessionId in
       Inr (buyer session, seller session, publicBuyerPrice session, publicSellerPrice session,
            buyerRevealed session, sellerRevealed session, dealMatched session, timestamp session))"

definition getAllSessionIds :: "contract \<Rightarrow> bytes32 list" where
  "getAllSessionIds s = sessionIds s"

definition isAvailable :: bool where
  "isAvailable = True"

section \<open>Transactions and runs\<close>

text \<open>An external call to the contract.\<close>

datatype call =
  CreateSession externalEuint32 externalEuint32 bytes bytes uint256 uint256
| JoinSession bytes32 externalEuint32 bytes uint256
| RevealBuyerPrice bytes32 bytes bytes
| RevealSellerPrice bytes32 bytes bytes
| GetEncryptedPrices bytes32
| GetSession bytes32
| GetAllSessionIds
| IsAvailable

text \<open>
  \<open>outcome\<close> is \<open>None\<close> when the transaction commits and the error when it reverts;
  \<open>step\<close> is the storage after it.  A read leaves the storage as it is.
\<close>

fun exec :: "fhe \<Rightarrow> msg_ctx \<Rightarrow> call \<Rightarrow> contract \<Rightarrow> error option \<times> contract" where
  "exec lib m (CreateSession eb es bp sp pb ps) s =
     (case transact (createSession lib m eb es bp sp pb ps) s of
        (Inl e, s') \<Rightarrow> (Some e, s') | (Inr _, s') \<Rightarrow> (None, s'))"
| "exec lib m (JoinSession sid es sp ps) s =
     (case transact (joinSession lib m sid es sp ps) s of
        (Inl e, s') \<Rightarrow> (Some e, s') | (Inr _, s') \<Rightarrow> (None, s'))"
| "exec lib m (RevealBuyerPrice sid cv dp) s =
     (case transact (revealBuyerPrice lib m sid cv dp) s of
        (Inl e, s') \<Rightarrow> (Some e, s') | (Inr _, s') \<Rightarrow> (None, s'))"
| "exec lib m (RevealSellerPrice sid cv dp) s =
     (case transact (revealSellerPrice lib m sid cv dp) s of
        (Inl e, s') \<Rightarrow> (Some e, s') | (Inr _, s') \<Rightarrow> (None, s'))"
| "exec lib m (GetEncryptedPrices sid) s =
     (case getEncryptedPrices sid s of Inl e \<Rightarrow> (Some e, s) | Inr _ \<Rightarrow> (None, s))"
| "exec lib m (GetSession sid) s =
     (case getSession sid s of Inl e \<Rightarrow> (Some e, s) | Inr _ \<Rightarrow> (None, s))"
| "exec lib m GetAllSessionIds s = (None, s)"
| "exec lib m IsAvailable s = (None, s)"

definition outcome :: "fhe \<Rightarrow> msg_ctx \<times> call \<Rightarrow> contract \<Rightarrow> error option" where
  "outcome lib mc s = fst (exec lib (fst mc) (snd mc) s)"

definition step :: "fhe \<Rightarrow> msg_ctx \<times> call \<Rightarrow> contract \<Rightarrow> contract" where
  "step lib mc s = snd (exec lib (fst mc) (snd mc) s)"

text \<open>A run: the calls of a list, one transaction after the other.\<close>

fun run :: "fhe \<Rightarrow> contract \<Rightarrow> (msg_ctx \<times> call) list \<Rightarrow> contract" where
  "run lib s [] = s"
| "run lib s (mc # rest) = run lib (step lib mc s) rest"

section \<open>Notions used by the properties\<close>

definition bothRevealed :: "BargainSession \<Rightarrow> bool" where
  "bothRevealed r = (buyerRevealed r \<and> sellerRevealed r)"

text \<open>The \<open>DealMatched\<close> events of one session.\<close>

fun isDealMatched :: "bytes32 \<Rightarrow> event \<Rightarrow> bool" where
  "isDealMatched sid (DealMatched i _) = (i = sid)"
| "isDealMatched sid _ = False"

text \<open>
  Two invariants of the storage, per session id.  \<open>inv1\<close>: a slot whose \<open>timestamp\<close> is
  zero is untouched (no flag set, no seller bound), so \<open>createSession\<close> never overwrites
  a session that has been acted on.  \<open>undecided\<close>: before both prices are revealed there
  is no match and no \<open>DealMatched\<close> event.
\<close>

definition inv1 :: "BargainSession \<Rightarrow> bool" where
  "inv1 r = ((buyerRevealed r \<or> sellerRevealed r \<or> dealMatched r \<or> seller r \<noteq> 0)
               \<longrightarrow> timestamp r \<noteq> 0)"

definition undecided :: "contract \<Rightarrow> bytes32 \<Rightarrow> bool" where
  "undecided s sid = (\<not> bothRevealed (sessions s sid) \<longrightarrow>
      \<not> dealMatched (sessions s sid) \<and> filter (isDealMatched sid) (events s) = [])"

text \<open>
  For the creation log: the ids returned by the \<open>createSession\<close> transactions of a run that
  committed, in the order of the run; their number; and the invariant that links the log to
  the session table.
\<close>

fun created :: "fhe \<Rightarrow> contract \<Rightarrow> (msg_ctx \<times> call) list \<Rightarrow> bytes32 list" where
  "created lib s [] = []"
| "created lib s ((m, CreateSession eb es bp sp pb ps) # rest) =
     (case fst (transact (createSession lib m eb es bp sp pb ps) s) of
        Inr sessionId \<Rightarrow> [sessionId] | Inl _ \<Rightarrow> [])
     @ created lib (step lib (m, CreateSession eb es bp sp pb ps) s) rest"
| "created lib s (mc # rest) = created lib (step lib mc s) rest"

fun is_create :: "call \<Rightarrow> bool" where
  "is_create (CreateSession _ _ _ _ _ _) = True"
| "is_create _ = False"

fun committed_creates :: "fhe \<Rightarrow> contract \<Rightarrow> (msg_ctx \<times> call) list \<Rightarrow> nat" where
  "committed_creates lib s [] = 0"
| "committed_creates lib s (mc # rest) =
     (if is_create (snd mc) \<and> outcome lib mc s = None then 1 else 0)
     + committed_creates lib (step lib mc s) rest"

definition log_inv :: "contract \<Rightarrow> bool" where
  "log_inv s = (distinct (sessionIds s) \<and>
                set (sessionIds s) = {sid. timestamp (sessions s sid) \<noteq> 0})"

section \<open>A concrete library and run\<close>

text \<open>
  A toy instance of the imported functions, for evaluating the model: the hash adds its two
  arguments, an ingestion proof is accepted when it is not empty, a handle is initialised
  when it is not zero, and a handle is the plaintext it stands for, so that a decryption
  proof (any non-empty one) attests the clear value equal to the handle.
\<close>

definition demo_lib :: fhe where
  "demo_lib =
     \<lparr>keccak256_packed = (\<lambda>a t. ucast a + t),
      FHE_fromExternal = (\<lambda>a h p. if p = [] then None else Some h),
      FHE_isInitialized = (\<lambda>h. h \<noteq> 0),
      FHE_allowThis = (\<lambda>h. True),
      FHE_toBytes32 = (\<lambda>h. h),
      FHE_checkSignatures = (\<lambda>cts cv dp. dp \<noteq> [] \<and> cts = [be_uint256 (take 32 cv)])\<rparr>"

text \<open>The ABI encoding of a \<open>uint256\<close> below 256: 31 zero bytes and the value.\<close>

definition abi_word :: "8 word \<Rightarrow> bytes" where
  "abi_word b = replicate 31 0 @ [b]"

text \<open>
  Scenario 1 of the specification: account 1 creates a session at time 1000 with a bid of
  100, account 2 joins with an ask of 80, the buyer reveals, then the seller reveals.
\<close>

definition demo_create :: "msg_ctx \<times> call" where
  "demo_create = (\<lparr>msg_sender = 1, block_timestamp = 1000\<rparr>, CreateSession 100 7 [1] [1] 0 0)"

definition demo_join :: "msg_ctx \<times> call" where
  "demo_join = (\<lparr>msg_sender = 2, block_timestamp = 1001\<rparr>, JoinSession 1001 80 [1] 0)"

definition demo_buyer_reveal :: "msg_ctx \<times> call" where
  "demo_buyer_reveal =
     (\<lparr>msg_sender = 1, block_timestamp = 1002\<rparr>, RevealBuyerPrice 1001 (abi_word 100) [1])"

definition demo_setup :: "(msg_ctx \<times> call) list" where
  "demo_setup = [demo_create, demo_join]"

definition demo_open :: "(msg_ctx \<times> call) list" where
  "demo_open = demo_setup @ [demo_buyer_reveal]"

definition demo_seller_reveal :: "msg_ctx \<times> call" where
  "demo_seller_reveal =
     (\<lparr>msg_sender = 2, block_timestamp = 1003\<rparr>, RevealSellerPrice 1001 (abi_word 80) [1])"

definition demo_calls :: "(msg_ctx \<times> call) list" where
  "demo_calls = demo_open @ [demo_seller_reveal]"

text \<open>
  A run with three \<open>createSession\<close> calls: the third repeats the first in the same block and
  reverts.
\<close>

definition demo_creates :: "(msg_ctx \<times> call) list" where
  "demo_creates =
     [demo_create, demo_join,
      (\<lparr>msg_sender = 3, block_timestamp = 1000\<rparr>, CreateSession 50 60 [1] [1] 0 0),
      demo_create]"

text \<open>Calls after the session is settled: a third party joins, both parties reveal again.\<close>

definition demo_late :: "(msg_ctx \<times> call) list" where
  "demo_late =
     [(\<lparr>msg_sender = 3, block_timestamp = 1004\<rparr>, JoinSession 1001 5 [1] 500),
      (\<lparr>msg_sender = 1, block_timestamp = 1005\<rparr>, RevealBuyerPrice 1001 (abi_word 10) [1]),
      (\<lparr>msg_sender = 2, block_timestamp = 1006\<rparr>, RevealSellerPrice 1001 (abi_word 200) [1])]"

section \<open>Basic facts about the storage operations\<close>

lemma sessions_emit [simp]: "sessions (emit e s) = sessions s"
  by (simp add: emit_def)

lemma sessionIds_emit [simp]: "sessionIds (emit e s) = sessionIds s"
  by (simp add: emit_def)

lemma events_emit [simp]: "events (emit e s) = events s @ [e]"
  by (simp add: emit_def)

lemma sessions_store_session [simp]:
  "sessions (store_session sid f s) = (sessions s)(sid := f (sessions s sid))"
  by (simp add: store_session_def)

lemma sessionIds_store_session [simp]: "sessionIds (store_session sid f s) = sessionIds s"
  by (simp add: store_session_def)

lemma events_store_session [simp]: "events (store_session sid f s) = events s"
  by (simp add: store_session_def)

lemma sessions_checkDeal:
  "sessions (checkDeal sid s) =
     (if publicSellerPrice (sessions s sid) \<le> publicBuyerPrice (sessions s sid)
      then (sessions s)(sid := (sessions s sid)\<lparr>dealMatched := True\<rparr>) else sessions s)"
  by (simp add: checkDeal_def)

lemma sessionIds_checkDeal: "sessionIds (checkDeal sid s) = sessionIds s"
  by (simp add: checkDeal_def)

lemma events_checkDeal:
  "events (checkDeal sid s) =
     (if publicSellerPrice (sessions s sid) \<le> publicBuyerPrice (sessions s sid)
      then events s @ [DealMatched sid (publicSellerPrice (sessions s sid))] else events s)"
  by (simp add: checkDeal_def)

lemmas body_defs = createSession_def joinSession_def revealBuyerPrice_def revealSellerPrice_def
  getEncryptedPrices_def getSession_def

lemmas checkDeal_simps = sessions_checkDeal sessionIds_checkDeal events_checkDeal

lemma run_snoc: "run lib s (calls @ [mc]) = step lib mc (run lib s calls)"
  by (induction calls arbitrary: s) simp_all

lemma run_append: "run lib s (xs @ ys) = run lib (run lib s xs) ys"
  by (induction xs arbitrary: s) simp_all

subsection \<open>Evaluating the concrete run\<close>

lemma be_uint256_zeros:
  "foldl (\<lambda>acc b. acc * 256 + ucast b) (0::uint256) (replicate n (0::8 word)) = 0"
  by (induction n) simp_all

lemma be_uint256_abi_word: "be_uint256 (abi_word b) = ucast b"
  by (simp add: be_uint256_def abi_word_def be_uint256_zeros)

lemma length_abi_word: "length (abi_word b) = 32"
  by (simp add: abi_word_def)

lemma take_abi_word: "take 32 (abi_word b) = abi_word b"
  by (simp add: length_abi_word)

lemma abi_decode_abi_word: "abi_decode_uint256 (abi_word b) = Some (ucast b)"
  by (simp add: abi_decode_uint256_def be_uint256_abi_word length_abi_word take_abi_word)

lemmas demo_simps = demo_lib_def demo_calls_def demo_open_def demo_setup_def demo_create_def
  demo_join_def demo_buyer_reveal_def demo_seller_reveal_def demo_late_def
  step_def outcome_def transact_def body_defs Let_def checkDeal_simps
  abi_decode_abi_word take_abi_word be_uint256_abi_word init_contract_def zero_session_def

lemma demo_setup_session:
  "sessions (run demo_lib init_contract demo_setup) 1001 =
     \<lparr>buyer = 1, seller = 2, encryptedBuyerPrice = 100, encryptedSellerPrice = 80,
      publicBuyerPrice = 0, publicSellerPrice = 0, buyerRevealed = False,
      sellerRevealed = False, dealMatched = False, timestamp = 1000\<rparr>"
  by (simp add: demo_simps)

lemma demo_open_session:
  "sessions (run demo_lib init_contract demo_open) 1001 =
     \<lparr>buyer = 1, seller = 2, encryptedBuyerPrice = 100, encryptedSellerPrice = 80,
      publicBuyerPrice = 100, publicSellerPrice = 0, buyerRevealed = True,
      sellerRevealed = False, dealMatched = False, timestamp = 1000\<rparr>"
  by (simp add: demo_simps)

lemma demo_session:
  "sessions (run demo_lib init_contract demo_calls) 1001 =
     \<lparr>buyer = 1, seller = 2, encryptedBuyerPrice = 100, encryptedSellerPrice = 80,
      publicBuyerPrice = 100, publicSellerPrice = 80, buyerRevealed = True,
      sellerRevealed = True, dealMatched = True, timestamp = 1000\<rparr>"
  by (simp add: demo_simps)

lemma demo_events:
  "events (run demo_lib init_contract demo_calls) =
     [SessionCreated 1001 1 0, SessionCreated 1001 1 2, PriceRevealed 1001 1 100,
      PriceRevealed 1001 2 80, DealMatched 1001 80]"
  by (simp add: demo_simps)

section \<open>Invariants of every run\<close>

lemma step_inv1: "inv1 (sessions s sid) \<Longrightarrow> inv1 (sessions (step lib mc s) sid)"
  apply (cases mc)
  subgoal for m c
    apply (cases c)
           apply (auto simp: step_def transact_def body_defs Let_def inv1_def checkDeal_simps
        word_gt_0 split: option.splits if_splits prod.splits sum.splits)
    done
  done

lemma step_mono:
  assumes "inv1 (sessions s sid)"
  shows "(buyerRevealed (sessions s sid) \<longrightarrow> buyerRevealed (sessions (step lib mc s) sid)) \<and>
         (sellerRevealed (sessions s sid) \<longrightarrow> sellerRevealed (sessions (step lib mc s) sid)) \<and>
         (dealMatched (sessions s sid) \<longrightarrow> dealMatched (sessions (step lib mc s) sid))"
  using assms
  apply (cases mc)
  subgoal for m c
    apply (cases c)
           apply (auto simp: step_def transact_def body_defs Let_def inv1_def checkDeal_simps
        word_gt_0 split: option.splits if_splits prod.splits sum.splits)
    done
  done

lemma step_undecided:
  assumes "inv1 (sessions s sid)" "undecided s sid"
  shows "undecided (step lib mc s) sid"
  using assms
  apply (cases mc)
  subgoal for m c
    apply (cases c)
           apply (auto simp: step_def transact_def body_defs Let_def inv1_def undecided_def
        bothRevealed_def checkDeal_simps word_gt_0
        split: option.splits if_splits prod.splits sum.splits)
    done
  done

text \<open>The transaction that makes both flags true decides the match, from the two prices it leaves.\<close>

lemma step_decides:
  assumes "inv1 (sessions s sid)" "undecided s sid" "\<not> bothRevealed (sessions s sid)"
    "bothRevealed (sessions (step lib mc s) sid)"
  shows "(\<exists>cv dp. snd mc = RevealBuyerPrice sid cv dp \<or> snd mc = RevealSellerPrice sid cv dp) \<and>
     outcome lib mc s = None \<and>
     dealMatched (sessions (step lib mc s) sid) =
       (publicBuyerPrice (sessions (step lib mc s) sid)
          \<ge> publicSellerPrice (sessions (step lib mc s) sid)) \<and>
     filter (isDealMatched sid) (events (step lib mc s)) =
       (if dealMatched (sessions (step lib mc s) sid)
        then [DealMatched sid (publicSellerPrice (sessions (step lib mc s) sid))] else [])"
  using assms
  apply (cases mc)
  subgoal for m c
    apply (cases c)
           apply (auto simp: step_def outcome_def transact_def body_defs Let_def inv1_def
        undecided_def bothRevealed_def checkDeal_simps word_gt_0
        split: option.splits if_splits prod.splits sum.splits)
    done
  done

text \<open>Once both flags are true, no transaction touches the match or its event.\<close>

lemma step_frozen:
  assumes "inv1 (sessions s sid)" "bothRevealed (sessions s sid)"
  shows "dealMatched (sessions (step lib mc s) sid) = dealMatched (sessions s sid) \<and>
     filter (isDealMatched sid) (events (step lib mc s)) = filter (isDealMatched sid) (events s)"
  using assms
  apply (cases mc)
  subgoal for m c
    apply (cases c)
           apply (auto simp: step_def outcome_def transact_def body_defs Let_def inv1_def
        undecided_def bothRevealed_def checkDeal_simps word_gt_0
        split: option.splits if_splits prod.splits sum.splits)
    done
  done

lemma run_inv1: "inv1 (sessions s sid) \<Longrightarrow> inv1 (sessions (run lib s calls) sid)"
  by (induction calls arbitrary: s) (simp_all add: step_inv1)

lemma init_inv1: "inv1 (sessions init_contract sid)"
  by (simp add: inv1_def init_contract_def zero_session_def)

lemma init_undecided: "undecided init_contract sid"
  by (simp add: undecided_def init_contract_def zero_session_def)

lemma run_undecided:
  "inv1 (sessions s sid) \<Longrightarrow> undecided s sid \<Longrightarrow> undecided (run lib s calls) sid"
  by (induction calls arbitrary: s) (simp_all add: step_inv1 step_undecided)

lemma run_mono:
  "inv1 (sessions s sid) \<Longrightarrow>
     (buyerRevealed (sessions s sid) \<longrightarrow> buyerRevealed (sessions (run lib s rest) sid)) \<and>
     (sellerRevealed (sessions s sid) \<longrightarrow> sellerRevealed (sessions (run lib s rest) sid)) \<and>
     (dealMatched (sessions s sid) \<longrightarrow> dealMatched (sessions (run lib s rest) sid))"
proof (induction rest arbitrary: s)
  case Nil
  then show ?case by simp
next
  case (Cons mc rest)
  from step_mono [OF Cons.prems, of lib mc] Cons.IH [OF step_inv1 [OF Cons.prems], of lib mc]
  show ?case by simp
qed

lemma run_frozen:
  "inv1 (sessions s sid) \<Longrightarrow> bothRevealed (sessions s sid) \<Longrightarrow>
     dealMatched (sessions (run lib s rest) sid) = dealMatched (sessions s sid) \<and>
     filter (isDealMatched sid) (events (run lib s rest)) = filter (isDealMatched sid) (events s)"
proof (induction rest arbitrary: s)
  case Nil
  then show ?case by simp
next
  case (Cons mc rest)
  have b: "bothRevealed (sessions (step lib mc s) sid)"
    using step_mono [OF Cons.prems(1), of lib mc] Cons.prems(2) by (simp add: bothRevealed_def)
  from Cons.IH [OF step_inv1 [OF Cons.prems(1)] b] step_frozen [OF Cons.prems, of lib mc]
  show ?case by simp
qed

lemma step_changes_dealMatched:
  assumes "inv1 (sessions s sid)" "undecided s sid"
    and "dealMatched (sessions (step lib mc s) sid) \<noteq> dealMatched (sessions s sid)"
  shows "\<not> bothRevealed (sessions s sid) \<and> bothRevealed (sessions (step lib mc s) sid)"
proof -
  have nb: "\<not> bothRevealed (sessions s sid)"
    using step_frozen [of s sid lib mc] assms(1,3) by blast
  then have "\<not> dealMatched (sessions s sid)"
    using assms(2) by (simp add: undecided_def)
  then have "dealMatched (sessions (step lib mc s) sid)"
    using assms(3) by simp
  then have "bothRevealed (sessions (step lib mc s) sid)"
    using step_undecided [OF assms(1,2), of lib mc] by (auto simp: undecided_def)
  with nb show ?thesis by simp
qed

section \<open>The properties\<close>

text \<open>
  C1.  In every run from the deployed contract that ends with both prices of a session
  revealed, there is one transaction, a successful reveal for that session, that made
  both flags true.  \<open>dealMatched\<close> at the end of the run is what that transaction decided:
  true if and only if \<open>publicBuyerPrice >= publicSellerPrice\<close> in the storage it left (a tie
  matches).  The log of the run holds one \<open>DealMatched\<close> event for the session when the
  deal matched, carrying that \<open>publicSellerPrice\<close>, and none otherwise: the match is never
  set twice.
\<close>

theorem dealMatched_decided_by_second_reveal:
  assumes "buyerRevealed (sessions (run lib init_contract calls) sid)"
    and "sellerRevealed (sessions (run lib init_contract calls) sid)"
  shows "\<exists>pre m c post s0 s1.
      calls = pre @ (m, c) # post \<and> s0 = run lib init_contract pre \<and> s1 = step lib (m, c) s0 \<and>
      (\<exists>cv dp. c = RevealBuyerPrice sid cv dp \<or> c = RevealSellerPrice sid cv dp) \<and>
      outcome lib (m, c) s0 = None \<and>
      \<not> bothRevealed (sessions s0 sid) \<and> bothRevealed (sessions s1 sid) \<and>
      dealMatched (sessions s1 sid) =
        (publicBuyerPrice (sessions s1 sid) \<ge> publicSellerPrice (sessions s1 sid)) \<and>
      dealMatched (sessions (run lib init_contract calls) sid) = dealMatched (sessions s1 sid) \<and>
      filter (isDealMatched sid) (events (run lib init_contract calls)) =
        (if dealMatched (sessions s1 sid)
         then [DealMatched sid (publicSellerPrice (sessions s1 sid))] else [])"
  using assms
proof (induction calls rule: rev_induct)
  case Nil
  then show ?case by (simp add: init_contract_def zero_session_def)
next
  case (snoc mc calls)
  let ?s0 = "run lib init_contract calls"
  have fin: "run lib init_contract (calls @ [mc]) = step lib mc ?s0"
    by (rule run_snoc)
  have i1: "inv1 (sessions ?s0 sid)"
    by (rule run_inv1 [OF init_inv1])
  have un: "undecided ?s0 sid"
    by (rule run_undecided [OF init_inv1 init_undecided])
  show ?case
  proof (cases "bothRevealed (sessions ?s0 sid)")
    case True
    then have "buyerRevealed (sessions ?s0 sid)" "sellerRevealed (sessions ?s0 sid)"
      by (simp_all add: bothRevealed_def)
    from snoc.IH [OF this] obtain pre m c post s0 s1 where
      d: "calls = pre @ (m, c) # post" "s0 = run lib init_contract pre" "s1 = step lib (m, c) s0"
      "\<exists>cv dp. c = RevealBuyerPrice sid cv dp \<or> c = RevealSellerPrice sid cv dp"
      "outcome lib (m, c) s0 = None"
      "\<not> bothRevealed (sessions s0 sid)" "bothRevealed (sessions s1 sid)"
      "dealMatched (sessions s1 sid) =
           (publicBuyerPrice (sessions s1 sid) \<ge> publicSellerPrice (sessions s1 sid))"
      "dealMatched (sessions ?s0 sid) = dealMatched (sessions s1 sid)"
      "filter (isDealMatched sid) (events ?s0) =
           (if dealMatched (sessions s1 sid)
            then [DealMatched sid (publicSellerPrice (sessions s1 sid))] else [])"
      by blast
    have "calls @ [mc] = pre @ (m, c) # (post @ [mc])"
      using d(1) by simp
    moreover have "dealMatched (sessions (step lib mc ?s0) sid) = dealMatched (sessions s1 sid)"
      using step_frozen [OF i1 True, of lib mc] d(9) by simp
    moreover have "filter (isDealMatched sid) (events (step lib mc ?s0)) =
           (if dealMatched (sessions s1 sid)
            then [DealMatched sid (publicSellerPrice (sessions s1 sid))] else [])"
      using step_frozen [OF i1 True, of lib mc] d(10) by simp
    ultimately show ?thesis
      unfolding fin using d(2-8) by blast
  next
    case False
    obtain m c where mc: "mc = (m, c)" by (cases mc)
    have both: "bothRevealed (sessions (step lib mc ?s0) sid)"
      using snoc.prems by (simp add: fin bothRevealed_def)
    note dec = step_decides [OF i1 un False both, unfolded mc snd_conv]
    have e: "calls @ [mc] = calls @ (m, c) # []"
      by (simp add: mc)
    have "\<exists>cv dp. c = RevealBuyerPrice sid cv dp \<or> c = RevealSellerPrice sid cv dp"
      and "outcome lib (m, c) ?s0 = None"
      and "dealMatched (sessions (step lib (m, c) ?s0) sid) =
        (publicBuyerPrice (sessions (step lib (m, c) ?s0) sid)
           \<ge> publicSellerPrice (sessions (step lib (m, c) ?s0) sid))"
      and "filter (isDealMatched sid) (events (step lib (m, c) ?s0)) =
        (if dealMatched (sessions (step lib (m, c) ?s0) sid)
         then [DealMatched sid (publicSellerPrice (sessions (step lib (m, c) ?s0) sid))] else [])"
      using dec by blast+
    then show ?thesis
      unfolding fin using e False both unfolding mc by blast
  qed
qed

theorem dealMatched_decided_by_second_reveal_witness:
  "buyerRevealed (sessions (run demo_lib init_contract demo_calls) 1001) \<and>
   sellerRevealed (sessions (run demo_lib init_contract demo_calls) 1001) \<and>
   dealMatched (sessions (run demo_lib init_contract demo_calls) 1001) \<and>
   (\<exists>pre m c post s0 s1.
      demo_calls = pre @ (m, c) # post \<and> s0 = run demo_lib init_contract pre \<and>
      s1 = step demo_lib (m, c) s0 \<and>
      (\<exists>cv dp. c = RevealBuyerPrice 1001 cv dp \<or> c = RevealSellerPrice 1001 cv dp) \<and>
      outcome demo_lib (m, c) s0 = None \<and>
      \<not> bothRevealed (sessions s0 1001) \<and> bothRevealed (sessions s1 1001) \<and>
      dealMatched (sessions s1 1001) =
        (publicBuyerPrice (sessions s1 1001) \<ge> publicSellerPrice (sessions s1 1001)) \<and>
      dealMatched (sessions (run demo_lib init_contract demo_calls) 1001) =
        dealMatched (sessions s1 1001) \<and>
      filter (isDealMatched 1001) (events (run demo_lib init_contract demo_calls)) =
        (if dealMatched (sessions s1 1001)
         then [DealMatched 1001 (publicSellerPrice (sessions s1 1001))] else []))"
proof -
  have b: "buyerRevealed (sessions (run demo_lib init_contract demo_calls) 1001)"
    by (simp add: demo_session)
  have s: "sellerRevealed (sessions (run demo_lib init_contract demo_calls) 1001)"
    by (simp add: demo_session)
  have d: "dealMatched (sessions (run demo_lib init_contract demo_calls) 1001)"
    by (simp add: demo_session)
  from b s d dealMatched_decided_by_second_reveal [OF b s] show ?thesis
    by (intro conjI)
qed

lemma demo_last_step:
  "step demo_lib demo_seller_reveal (run demo_lib init_contract demo_open) =
     run demo_lib init_contract demo_calls"
  by (simp add: demo_calls_def run_snoc)

text \<open>
  C2.  In every state \<open>s\<close> reached by a run from the deployed contract: a flag
  (\<open>buyerRevealed\<close>, \<open>sellerRevealed\<close>, \<open>dealMatched\<close>) that is true in \<open>s\<close> is true after any
  further calls, reads included; \<open>dealMatched\<close> is true only if both reveal flags are;
  one transaction changes \<open>dealMatched\<close> only if it makes both flags true; the transaction
  that makes both flags true is a successful reveal of that session and leaves
  \<open>dealMatched\<close> equal to the comparison of the two prices; and once both flags are true no
  further call changes \<open>dealMatched\<close> or adds a \<open>DealMatched\<close> event, so the match is
  evaluated on that one transaction only.
\<close>

theorem flags_monotone_match_evaluated_once:
  fixes lib calls sid rest mc
  defines "s \<equiv> run lib init_contract calls"
  defines "s' \<equiv> step lib mc s"
  shows
    "(buyerRevealed (sessions s sid) \<longrightarrow> buyerRevealed (sessions (run lib s rest) sid)) \<and>
     (sellerRevealed (sessions s sid) \<longrightarrow> sellerRevealed (sessions (run lib s rest) sid)) \<and>
     (dealMatched (sessions s sid) \<longrightarrow> dealMatched (sessions (run lib s rest) sid)) \<and>
     (dealMatched (sessions s sid) \<longrightarrow>
        buyerRevealed (sessions s sid) \<and> sellerRevealed (sessions s sid)) \<and>
     (dealMatched (sessions s' sid) \<noteq> dealMatched (sessions s sid) \<longrightarrow>
        \<not> bothRevealed (sessions s sid) \<and> bothRevealed (sessions s' sid)) \<and>
     (\<not> bothRevealed (sessions s sid) \<and> bothRevealed (sessions s' sid) \<longrightarrow>
        (\<exists>cv dp. snd mc = RevealBuyerPrice sid cv dp \<or> snd mc = RevealSellerPrice sid cv dp) \<and>
        outcome lib mc s = None \<and>
        dealMatched (sessions s' sid) =
          (publicBuyerPrice (sessions s' sid) \<ge> publicSellerPrice (sessions s' sid))) \<and>
     (bothRevealed (sessions s sid) \<longrightarrow>
        dealMatched (sessions (run lib s rest) sid) = dealMatched (sessions s sid) \<and>
        filter (isDealMatched sid) (events (run lib s rest)) = filter (isDealMatched sid) (events s))"
proof -
  have i1: "inv1 (sessions s sid)"
    unfolding s_def by (rule run_inv1 [OF init_inv1])
  have un: "undecided s sid"
    unfolding s_def by (rule run_undecided [OF init_inv1 init_undecided])
  note m = run_mono [OF i1, of lib rest]
  have d: "dealMatched (sessions s sid) \<longrightarrow>
        buyerRevealed (sessions s sid) \<and> sellerRevealed (sessions s sid)"
    using un by (auto simp: undecided_def bothRevealed_def)
  have c: "dealMatched (sessions s' sid) \<noteq> dealMatched (sessions s sid) \<longrightarrow>
        \<not> bothRevealed (sessions s sid) \<and> bothRevealed (sessions s' sid)"
    unfolding s'_def using step_changes_dealMatched [OF i1 un] by blast
  have t: "\<not> bothRevealed (sessions s sid) \<and> bothRevealed (sessions s' sid) \<longrightarrow>
        (\<exists>cv dp. snd mc = RevealBuyerPrice sid cv dp \<or> snd mc = RevealSellerPrice sid cv dp) \<and>
        outcome lib mc s = None \<and>
        dealMatched (sessions s' sid) =
          (publicBuyerPrice (sessions s' sid) \<ge> publicSellerPrice (sessions s' sid))"
    unfolding s'_def using step_decides [OF i1 un, of lib mc] by blast
  have f: "bothRevealed (sessions s sid) \<longrightarrow>
        dealMatched (sessions (run lib s rest) sid) = dealMatched (sessions s sid) \<and>
        filter (isDealMatched sid) (events (run lib s rest)) = filter (isDealMatched sid) (events s)"
    using run_frozen [OF i1, of lib rest] by blast
  from m d c t f show ?thesis by blast
qed

theorem flags_monotone_match_evaluated_once_witness:
  "(buyerRevealed (sessions (run demo_lib init_contract demo_open) 1001) \<and>
    \<not> bothRevealed (sessions (run demo_lib init_contract demo_open) 1001) \<and>
    bothRevealed (sessions (step demo_lib demo_seller_reveal (run demo_lib init_contract demo_open)) 1001) \<and>
    buyerRevealed (sessions (run demo_lib (run demo_lib init_contract demo_open) demo_late) 1001) \<and>
    (\<exists>cv dp. snd demo_seller_reveal = RevealBuyerPrice 1001 cv dp
           \<or> snd demo_seller_reveal = RevealSellerPrice 1001 cv dp) \<and>
    outcome demo_lib demo_seller_reveal (run demo_lib init_contract demo_open) = None \<and>
    dealMatched (sessions (step demo_lib demo_seller_reveal (run demo_lib init_contract demo_open)) 1001) =
      (publicBuyerPrice (sessions (step demo_lib demo_seller_reveal (run demo_lib init_contract demo_open)) 1001)
        \<ge> publicSellerPrice (sessions (step demo_lib demo_seller_reveal (run demo_lib init_contract demo_open)) 1001))) \<and>
   (dealMatched (sessions (run demo_lib init_contract demo_calls) 1001) \<and>
    bothRevealed (sessions (run demo_lib init_contract demo_calls) 1001) \<and>
    buyerRevealed (sessions (run demo_lib (run demo_lib init_contract demo_calls) demo_late) 1001) \<and>
    sellerRevealed (sessions (run demo_lib (run demo_lib init_contract demo_calls) demo_late) 1001) \<and>
    dealMatched (sessions (run demo_lib (run demo_lib init_contract demo_calls) demo_late) 1001) \<and>
    filter (isDealMatched 1001) (events (run demo_lib (run demo_lib init_contract demo_calls) demo_late)) =
      filter (isDealMatched 1001) (events (run demo_lib init_contract demo_calls)))"
proof -
  have o1: "buyerRevealed (sessions (run demo_lib init_contract demo_open) 1001)"
    and o2: "\<not> bothRevealed (sessions (run demo_lib init_contract demo_open) 1001)"
    by (simp_all add: demo_open_session bothRevealed_def)
  have o3: "bothRevealed (sessions (step demo_lib demo_seller_reveal (run demo_lib init_contract demo_open)) 1001)"
    by (simp add: demo_last_step demo_session bothRevealed_def)
  have c1: "dealMatched (sessions (run demo_lib init_contract demo_calls) 1001)"
    and c2: "bothRevealed (sessions (run demo_lib init_contract demo_calls) 1001)"
    and c3: "buyerRevealed (sessions (run demo_lib init_contract demo_calls) 1001)"
    and c4: "sellerRevealed (sessions (run demo_lib init_contract demo_calls) 1001)"
    by (simp_all add: demo_session bothRevealed_def)
  note t1 = flags_monotone_match_evaluated_once
    [where lib = demo_lib and calls = demo_open and sid = 1001 and rest = demo_late
       and mc = demo_seller_reveal]
  note t2 = flags_monotone_match_evaluated_once
    [where lib = demo_lib and calls = demo_calls and sid = 1001 and rest = demo_late
       and mc = demo_seller_reveal]
  from t1 o1 o2 o3 t2 c1 c2 c3 c4 show ?thesis
    by blast
qed

subsection \<open>What stays fixed in an existing session\<close>

lemma step_session_fixed:
  assumes "timestamp (sessions s sid) \<noteq> 0"
  shows "timestamp (sessions (step lib mc s) sid) = timestamp (sessions s sid) \<and>
         buyer (sessions (step lib mc s) sid) = buyer (sessions s sid) \<and>
         (buyerRevealed (sessions s sid) \<longrightarrow> buyerRevealed (sessions (step lib mc s) sid)) \<and>
         (sellerRevealed (sessions s sid) \<longrightarrow> sellerRevealed (sessions (step lib mc s) sid)) \<and>
         (seller (sessions s sid) \<noteq> 0 \<longrightarrow>
            seller (sessions (step lib mc s) sid) = seller (sessions s sid))"
  using assms
  apply (cases mc)
  subgoal for m c
    apply (cases c)
           apply (auto simp: step_def transact_def body_defs Let_def checkDeal_simps word_gt_0
        split: option.splits if_splits prod.splits sum.splits)
    done
  done

lemma run_session_fixed:
  "timestamp (sessions s sid) \<noteq> 0 \<Longrightarrow>
     timestamp (sessions (run lib s rest) sid) = timestamp (sessions s sid) \<and>
     buyer (sessions (run lib s rest) sid) = buyer (sessions s sid) \<and>
     (buyerRevealed (sessions s sid) \<longrightarrow> buyerRevealed (sessions (run lib s rest) sid)) \<and>
     (sellerRevealed (sessions s sid) \<longrightarrow> sellerRevealed (sessions (run lib s rest) sid)) \<and>
     (seller (sessions s sid) \<noteq> 0 \<longrightarrow>
        seller (sessions (run lib s rest) sid) = seller (sessions s sid))"
proof (induction rest arbitrary: s)
  case Nil
  then show ?case by simp
next
  case (Cons mc rest)
  note st = step_session_fixed [OF Cons.prems, of lib mc]
  then have "timestamp (sessions (step lib mc s) sid) \<noteq> 0"
    using Cons.prems by simp
  from Cons.IH [OF this] st show ?case by simp
qed

subsection \<open>The two reveal transactions, case by case\<close>

lemma exec_revealBuyerPrice:
  "exec lib m (RevealBuyerPrice sid cv dp) s =
    (if timestamp (sessions s sid) = 0 then (Some SessionDoesNotExist, s)
     else if msg_sender m \<noteq> buyer (sessions s sid) then (Some OnlyBuyerCanReveal, s)
     else if buyerRevealed (sessions s sid) then (Some BuyerAlreadyRevealed, s)
     else if \<not> FHE_checkSignatures lib [FHE_toBytes32 lib (encryptedBuyerPrice (sessions s sid))] cv dp
       then (Some InvalidDecryptionProof, s)
     else case abi_decode_uint256 cv of
         None \<Rightarrow> (Some AbiDecodeError, s)
       | Some v \<Rightarrow> (None,
           s\<lparr>sessions := (sessions s)(sid := (sessions s sid)
                \<lparr>publicBuyerPrice := v, buyerRevealed := True,
                 dealMatched := (dealMatched (sessions s sid) \<or>
                    sellerRevealed (sessions s sid) \<and> publicSellerPrice (sessions s sid) \<le> v)\<rparr>),
             events := events s @ PriceRevealed sid (buyer (sessions s sid)) v #
               (if sellerRevealed (sessions s sid) \<and> publicSellerPrice (sessions s sid) \<le> v
                then [DealMatched sid (publicSellerPrice (sessions s sid))] else [])\<rparr>))"
  by (auto simp: transact_def revealBuyerPrice_def Let_def checkDeal_def emit_def store_session_def
      word_gt_0 split: option.splits)

lemma exec_revealSellerPrice:
  "exec lib m (RevealSellerPrice sid cv dp) s =
    (if timestamp (sessions s sid) = 0 then (Some SessionDoesNotExist, s)
     else if msg_sender m \<noteq> seller (sessions s sid) then (Some OnlySellerCanReveal, s)
     else if sellerRevealed (sessions s sid) then (Some SellerAlreadyRevealed, s)
     else if \<not> FHE_checkSignatures lib [FHE_toBytes32 lib (encryptedSellerPrice (sessions s sid))] cv dp
       then (Some InvalidDecryptionProof, s)
     else case abi_decode_uint256 cv of
         None \<Rightarrow> (Some AbiDecodeError, s)
       | Some v \<Rightarrow> (None,
           s\<lparr>sessions := (sessions s)(sid := (sessions s sid)
                \<lparr>publicSellerPrice := v, sellerRevealed := True,
                 dealMatched := (dealMatched (sessions s sid) \<or>
                    buyerRevealed (sessions s sid) \<and> v \<le> publicBuyerPrice (sessions s sid))\<rparr>),
             events := events s @ PriceRevealed sid (seller (sessions s sid)) v #
               (if buyerRevealed (sessions s sid) \<and> v \<le> publicBuyerPrice (sessions s sid)
                then [DealMatched sid v] else [])\<rparr>))"
  by (auto simp: transact_def revealSellerPrice_def Let_def checkDeal_def emit_def store_session_def
      word_gt_0 split: option.splits)

lemma revealBuyerPrice_again:
  assumes "timestamp (sessions s sid) \<noteq> 0" "buyerRevealed (sessions s sid)"
    "msg_sender m' = buyer (sessions s sid)"
  shows "exec lib m' (RevealBuyerPrice sid cv' dp') (run lib s rest) =
           (Some BuyerAlreadyRevealed, run lib s rest)"
  using run_session_fixed [OF assms(1), of lib rest] assms
  by (simp add: exec_revealBuyerPrice del: exec.simps)

lemma revealSellerPrice_again:
  assumes "timestamp (sessions s sid) \<noteq> 0" "sellerRevealed (sessions s sid)"
    "msg_sender m' = seller (sessions s sid)" "seller (sessions s sid) \<noteq> 0"
  shows "exec lib m' (RevealSellerPrice sid cv' dp') (run lib s rest) =
           (Some SellerAlreadyRevealed, run lib s rest)"
  using run_session_fixed [OF assms(1), of lib rest] assms
  by (simp add: exec_revealSellerPrice del: exec.simps)

text \<open>
  C3.  \<open>revealBuyerPrice\<close> fails with "Session does not exist" on an absent session;
  otherwise with "Only buyer can reveal" when the caller is not the session's buyer;
  otherwise with "Buyer already revealed" when the flag is set; otherwise with the
  verifier's revert when the decryption proof is refused; each failure leaves the storage
  and the log as they were.  A call that succeeds has passed the verifier, stores the
  decoded clear value as \<open>publicBuyerPrice\<close>, sets \<open>buyerRevealed\<close> and appends
  \<open>PriceRevealed(sessionId, buyer, clearValue)\<close> (followed by \<open>DealMatched\<close> when the seller
  had revealed and the prices match).  After it, and after any further calls, a reveal by
  the buyer fails with "Buyer already revealed" and changes nothing.  \<open>revealSellerPrice\<close>
  does the same with the roles swapped.
\<close>

theorem reveal_checks_in_order:
  fixes lib :: fhe and m m' :: msg_ctx and sid :: bytes32 and cv dp cv' dp' :: bytes
    and s :: contract and rest :: "(msg_ctx \<times> call) list"
  defines "r \<equiv> sessions s sid"
  defines "b \<equiv> exec lib m (RevealBuyerPrice sid cv dp) s"
  defines "a \<equiv> exec lib m (RevealSellerPrice sid cv dp) s"
  shows
    "((timestamp r = 0 \<longrightarrow> b = (Some SessionDoesNotExist, s)) \<and>
      (timestamp r \<noteq> 0 \<and> msg_sender m \<noteq> buyer r \<longrightarrow> b = (Some OnlyBuyerCanReveal, s)) \<and>
      (timestamp r \<noteq> 0 \<and> msg_sender m = buyer r \<and> buyerRevealed r \<longrightarrow>
         b = (Some BuyerAlreadyRevealed, s)) \<and>
      (timestamp r \<noteq> 0 \<and> msg_sender m = buyer r \<and> \<not> buyerRevealed r \<and>
       \<not> FHE_checkSignatures lib [FHE_toBytes32 lib (encryptedBuyerPrice r)] cv dp \<longrightarrow>
         b = (Some InvalidDecryptionProof, s)) \<and>
      (fst b \<noteq> None \<longrightarrow> snd b = s) \<and>
      (fst b = None \<longrightarrow>
         FHE_checkSignatures lib [FHE_toBytes32 lib (encryptedBuyerPrice r)] cv dp \<and>
         abi_decode_uint256 cv = Some (publicBuyerPrice (sessions (snd b) sid)) \<and>
         buyerRevealed (sessions (snd b) sid) \<and>
         events (snd b) =
           events s @ PriceRevealed sid (buyer r) (publicBuyerPrice (sessions (snd b) sid)) #
             (if sellerRevealed r \<and> publicSellerPrice r \<le> publicBuyerPrice (sessions (snd b) sid)
              then [DealMatched sid (publicSellerPrice r)] else []) \<and>
         (msg_sender m' = buyer r \<longrightarrow>
            exec lib m' (RevealBuyerPrice sid cv' dp') (run lib (snd b) rest) =
              (Some BuyerAlreadyRevealed, run lib (snd b) rest)))) \<and>
     ((timestamp r = 0 \<longrightarrow> a = (Some SessionDoesNotExist, s)) \<and>
      (timestamp r \<noteq> 0 \<and> msg_sender m \<noteq> seller r \<longrightarrow> a = (Some OnlySellerCanReveal, s)) \<and>
      (timestamp r \<noteq> 0 \<and> msg_sender m = seller r \<and> sellerRevealed r \<longrightarrow>
         a = (Some SellerAlreadyRevealed, s)) \<and>
      (timestamp r \<noteq> 0 \<and> msg_sender m = seller r \<and> \<not> sellerRevealed r \<and>
       \<not> FHE_checkSignatures lib [FHE_toBytes32 lib (encryptedSellerPrice r)] cv dp \<longrightarrow>
         a = (Some InvalidDecryptionProof, s)) \<and>
      (fst a \<noteq> None \<longrightarrow> snd a = s) \<and>
      (fst a = None \<longrightarrow>
         FHE_checkSignatures lib [FHE_toBytes32 lib (encryptedSellerPrice r)] cv dp \<and>
         abi_decode_uint256 cv = Some (publicSellerPrice (sessions (snd a) sid)) \<and>
         sellerRevealed (sessions (snd a) sid) \<and>
         events (snd a) =
           events s @ PriceRevealed sid (seller r) (publicSellerPrice (sessions (snd a) sid)) #
             (if buyerRevealed r \<and> publicSellerPrice (sessions (snd a) sid) \<le> publicBuyerPrice r
              then [DealMatched sid (publicSellerPrice (sessions (snd a) sid))] else []) \<and>
         (msg_sender m' = seller r \<and> seller r \<noteq> 0 \<longrightarrow>
            exec lib m' (RevealSellerPrice sid cv' dp') (run lib (snd a) rest) =
              (Some SellerAlreadyRevealed, run lib (snd a) rest))))"
proof (rule conjI)
  note cb = exec_revealBuyerPrice [of lib m sid cv dp s, folded b_def r_def]
  have b1: "timestamp r = 0 \<longrightarrow> b = (Some SessionDoesNotExist, s)"
    and b2: "timestamp r \<noteq> 0 \<and> msg_sender m \<noteq> buyer r \<longrightarrow> b = (Some OnlyBuyerCanReveal, s)"
    and b3: "timestamp r \<noteq> 0 \<and> msg_sender m = buyer r \<and> buyerRevealed r \<longrightarrow>
         b = (Some BuyerAlreadyRevealed, s)"
    and b4: "timestamp r \<noteq> 0 \<and> msg_sender m = buyer r \<and> \<not> buyerRevealed r \<and>
       \<not> FHE_checkSignatures lib [FHE_toBytes32 lib (encryptedBuyerPrice r)] cv dp \<longrightarrow>
         b = (Some InvalidDecryptionProof, s)"
    and b5: "fst b \<noteq> None \<longrightarrow> snd b = s"
    by (simp_all add: cb split: option.splits)
  have b6: "fst b = None \<longrightarrow>
         FHE_checkSignatures lib [FHE_toBytes32 lib (encryptedBuyerPrice r)] cv dp \<and>
         abi_decode_uint256 cv = Some (publicBuyerPrice (sessions (snd b) sid)) \<and>
         buyerRevealed (sessions (snd b) sid) \<and>
         events (snd b) =
           events s @ PriceRevealed sid (buyer r) (publicBuyerPrice (sessions (snd b) sid)) #
             (if sellerRevealed r \<and> publicSellerPrice r \<le> publicBuyerPrice (sessions (snd b) sid)
              then [DealMatched sid (publicSellerPrice r)] else [])"
    by (simp add: cb r_def split: option.splits)
  have b7: "fst b = None \<longrightarrow> timestamp (sessions (snd b) sid) \<noteq> 0 \<and>
         buyer (sessions (snd b) sid) = buyer r"
    by (simp add: cb r_def split: option.splits)
  have b8: "fst b = None \<longrightarrow> (msg_sender m' = buyer r \<longrightarrow>
            exec lib m' (RevealBuyerPrice sid cv' dp') (run lib (snd b) rest) =
              (Some BuyerAlreadyRevealed, run lib (snd b) rest))"
    using b6 b7 revealBuyerPrice_again [of "snd b" sid m' lib cv' dp' rest] by simp
  from b1 b2 b3 b4 b5 b6 b8
  show "(timestamp r = 0 \<longrightarrow> b = (Some SessionDoesNotExist, s)) \<and>
      (timestamp r \<noteq> 0 \<and> msg_sender m \<noteq> buyer r \<longrightarrow> b = (Some OnlyBuyerCanReveal, s)) \<and>
      (timestamp r \<noteq> 0 \<and> msg_sender m = buyer r \<and> buyerRevealed r \<longrightarrow>
         b = (Some BuyerAlreadyRevealed, s)) \<and>
      (timestamp r \<noteq> 0 \<and> msg_sender m = buyer r \<and> \<not> buyerRevealed r \<and>
       \<not> FHE_checkSignatures lib [FHE_toBytes32 lib (encryptedBuyerPrice r)] cv dp \<longrightarrow>
         b = (Some InvalidDecryptionProof, s)) \<and>
      (fst b \<noteq> None \<longrightarrow> snd b = s) \<and>
      (fst b = None \<longrightarrow>
         FHE_checkSignatures lib [FHE_toBytes32 lib (encryptedBuyerPrice r)] cv dp \<and>
         abi_decode_uint256 cv = Some (publicBuyerPrice (sessions (snd b) sid)) \<and>
         buyerRevealed (sessions (snd b) sid) \<and>
         events (snd b) =
           events s @ PriceRevealed sid (buyer r) (publicBuyerPrice (sessions (snd b) sid)) #
             (if sellerRevealed r \<and> publicSellerPrice r \<le> publicBuyerPrice (sessions (snd b) sid)
              then [DealMatched sid (publicSellerPrice r)] else []) \<and>
         (msg_sender m' = buyer r \<longrightarrow>
            exec lib m' (RevealBuyerPrice sid cv' dp') (run lib (snd b) rest) =
              (Some BuyerAlreadyRevealed, run lib (snd b) rest)))"
    by blast
next
  note ca = exec_revealSellerPrice [of lib m sid cv dp s, folded a_def r_def]
  have a1: "timestamp r = 0 \<longrightarrow> a = (Some SessionDoesNotExist, s)"
    and a2: "timestamp r \<noteq> 0 \<and> msg_sender m \<noteq> seller r \<longrightarrow> a = (Some OnlySellerCanReveal, s)"
    and a3: "timestamp r \<noteq> 0 \<and> msg_sender m = seller r \<and> sellerRevealed r \<longrightarrow>
         a = (Some SellerAlreadyRevealed, s)"
    and a4: "timestamp r \<noteq> 0 \<and> msg_sender m = seller r \<and> \<not> sellerRevealed r \<and>
       \<not> FHE_checkSignatures lib [FHE_toBytes32 lib (encryptedSellerPrice r)] cv dp \<longrightarrow>
         a = (Some InvalidDecryptionProof, s)"
    and a5: "fst a \<noteq> None \<longrightarrow> snd a = s"
    by (simp_all add: ca split: option.splits)
  have a6: "fst a = None \<longrightarrow>
         FHE_checkSignatures lib [FHE_toBytes32 lib (encryptedSellerPrice r)] cv dp \<and>
         abi_decode_uint256 cv = Some (publicSellerPrice (sessions (snd a) sid)) \<and>
         sellerRevealed (sessions (snd a) sid) \<and>
         events (snd a) =
           events s @ PriceRevealed sid (seller r) (publicSellerPrice (sessions (snd a) sid)) #
             (if buyerRevealed r \<and> publicSellerPrice (sessions (snd a) sid) \<le> publicBuyerPrice r
              then [DealMatched sid (publicSellerPrice (sessions (snd a) sid))] else [])"
    by (simp add: ca r_def split: option.splits)
  have a7: "fst a = None \<longrightarrow> timestamp (sessions (snd a) sid) \<noteq> 0 \<and>
         seller (sessions (snd a) sid) = seller r"
    by (simp add: ca r_def split: option.splits)
  have a8: "fst a = None \<longrightarrow> (msg_sender m' = seller r \<and> seller r \<noteq> 0 \<longrightarrow>
            exec lib m' (RevealSellerPrice sid cv' dp') (run lib (snd a) rest) =
              (Some SellerAlreadyRevealed, run lib (snd a) rest))"
    using a6 a7 revealSellerPrice_again [of "snd a" sid m' lib cv' dp' rest] by simp
  from a1 a2 a3 a4 a5 a6 a8
  show "(timestamp r = 0 \<longrightarrow> a = (Some SessionDoesNotExist, s)) \<and>
      (timestamp r \<noteq> 0 \<and> msg_sender m \<noteq> seller r \<longrightarrow> a = (Some OnlySellerCanReveal, s)) \<and>
      (timestamp r \<noteq> 0 \<and> msg_sender m = seller r \<and> sellerRevealed r \<longrightarrow>
         a = (Some SellerAlreadyRevealed, s)) \<and>
      (timestamp r \<noteq> 0 \<and> msg_sender m = seller r \<and> \<not> sellerRevealed r \<and>
       \<not> FHE_checkSignatures lib [FHE_toBytes32 lib (encryptedSellerPrice r)] cv dp \<longrightarrow>
         a = (Some InvalidDecryptionProof, s)) \<and>
      (fst a \<noteq> None \<longrightarrow> snd a = s) \<and>
      (fst a = None \<longrightarrow>
         FHE_checkSignatures lib [FHE_toBytes32 lib (encryptedSellerPrice r)] cv dp \<and>
         abi_decode_uint256 cv = Some (publicSellerPrice (sessions (snd a) sid)) \<and>
         sellerRevealed (sessions (snd a) sid) \<and>
         events (snd a) =
           events s @ PriceRevealed sid (seller r) (publicSellerPrice (sessions (snd a) sid)) #
             (if buyerRevealed r \<and> publicSellerPrice (sessions (snd a) sid) \<le> publicBuyerPrice r
              then [DealMatched sid (publicSellerPrice (sessions (snd a) sid))] else []) \<and>
         (msg_sender m' = seller r \<and> seller r \<noteq> 0 \<longrightarrow>
            exec lib m' (RevealSellerPrice sid cv' dp') (run lib (snd a) rest) =
              (Some SellerAlreadyRevealed, run lib (snd a) rest)))"
    by blast
qed

theorem reveal_checks_in_order_witness:
  "(fst (exec demo_lib (fst demo_buyer_reveal) (RevealBuyerPrice 1001 (abi_word 100) [1])
          (run demo_lib init_contract demo_setup)) = None \<and>
    msg_sender (fst demo_buyer_reveal) = buyer (sessions (run demo_lib init_contract demo_setup) 1001) \<and>
    events (snd (exec demo_lib (fst demo_buyer_reveal) (RevealBuyerPrice 1001 (abi_word 100) [1])
          (run demo_lib init_contract demo_setup))) =
      events (run demo_lib init_contract demo_setup) @ [PriceRevealed 1001 1 100] \<and>
    exec demo_lib (fst demo_buyer_reveal) (RevealBuyerPrice 1001 (abi_word 9) [1])
       (run demo_lib (snd (exec demo_lib (fst demo_buyer_reveal)
           (RevealBuyerPrice 1001 (abi_word 100) [1]) (run demo_lib init_contract demo_setup))) demo_late) =
      (Some BuyerAlreadyRevealed,
       run demo_lib (snd (exec demo_lib (fst demo_buyer_reveal)
           (RevealBuyerPrice 1001 (abi_word 100) [1]) (run demo_lib init_contract demo_setup))) demo_late)) \<and>
   (timestamp (sessions (run demo_lib init_contract demo_setup) 7) = 0 \<and>
    exec demo_lib (fst demo_buyer_reveal) (RevealBuyerPrice 7 (abi_word 100) [1])
       (run demo_lib init_contract demo_setup) =
      (Some SessionDoesNotExist, run demo_lib init_contract demo_setup) \<and>
    exec demo_lib (fst demo_seller_reveal) (RevealBuyerPrice 1001 (abi_word 100) [1])
       (run demo_lib init_contract demo_setup) =
      (Some OnlyBuyerCanReveal, run demo_lib init_contract demo_setup) \<and>
    exec demo_lib (fst demo_buyer_reveal) (RevealBuyerPrice 1001 (abi_word 100) [])
       (run demo_lib init_contract demo_setup) =
      (Some InvalidDecryptionProof, run demo_lib init_contract demo_setup) \<and>
    exec demo_lib (fst demo_buyer_reveal) (RevealBuyerPrice 1001 (abi_word 100) [1])
       (run demo_lib init_contract demo_open) =
      (Some BuyerAlreadyRevealed, run demo_lib init_contract demo_open)) \<and>
   (fst (exec demo_lib (fst demo_seller_reveal) (RevealSellerPrice 1001 (abi_word 80) [1])
          (run demo_lib init_contract demo_open)) = None \<and>
    msg_sender (fst demo_seller_reveal) = seller (sessions (run demo_lib init_contract demo_open) 1001) \<and>
    events (snd (exec demo_lib (fst demo_seller_reveal) (RevealSellerPrice 1001 (abi_word 80) [1])
          (run demo_lib init_contract demo_open))) =
      events (run demo_lib init_contract demo_open) @ [PriceRevealed 1001 2 80, DealMatched 1001 80] \<and>
    exec demo_lib (fst demo_seller_reveal) (RevealSellerPrice 1001 (abi_word 9) [1])
       (run demo_lib (snd (exec demo_lib (fst demo_seller_reveal)
           (RevealSellerPrice 1001 (abi_word 80) [1]) (run demo_lib init_contract demo_open))) demo_late) =
      (Some SellerAlreadyRevealed,
       run demo_lib (snd (exec demo_lib (fst demo_seller_reveal)
           (RevealSellerPrice 1001 (abi_word 80) [1]) (run demo_lib init_contract demo_open))) demo_late)) \<and>
   (exec demo_lib (fst demo_seller_reveal) (RevealSellerPrice 7 (abi_word 80) [1])
       (run demo_lib init_contract demo_open) =
      (Some SessionDoesNotExist, run demo_lib init_contract demo_open) \<and>
    exec demo_lib (fst demo_buyer_reveal) (RevealSellerPrice 1001 (abi_word 80) [1])
       (run demo_lib init_contract demo_open) =
      (Some OnlySellerCanReveal, run demo_lib init_contract demo_open) \<and>
    exec demo_lib (fst demo_seller_reveal) (RevealSellerPrice 1001 (abi_word 80) [])
       (run demo_lib init_contract demo_open) =
      (Some InvalidDecryptionProof, run demo_lib init_contract demo_open) \<and>
    exec demo_lib (fst demo_seller_reveal) (RevealSellerPrice 1001 (abi_word 80) [1])
       (run demo_lib init_contract demo_calls) =
      (Some SellerAlreadyRevealed, run demo_lib init_contract demo_calls))"
proof -
  let ?S2 = "run demo_lib init_contract demo_setup"
  let ?S3 = "run demo_lib init_contract demo_open"
  let ?S4 = "run demo_lib init_contract demo_calls"
  let ?mb = "fst demo_buyer_reveal"
  let ?ms = "fst demo_seller_reveal"
  have mb: "msg_sender ?mb = 1" and ms: "msg_sender ?ms = 2"
    by (simp_all add: demo_buyer_reveal_def demo_seller_reveal_def)
  have absent: "timestamp (sessions ?S2 7) = 0" "timestamp (sessions ?S3 7) = 0"
    by (simp_all add: demo_simps)
  have chk: "FHE_checkSignatures demo_lib [FHE_toBytes32 demo_lib 100] (abi_word 100) [1]"
    "\<not> FHE_checkSignatures demo_lib [FHE_toBytes32 demo_lib 100] (abi_word 100) []"
    "FHE_checkSignatures demo_lib [FHE_toBytes32 demo_lib 80] (abi_word 80) [1]"
    "\<not> FHE_checkSignatures demo_lib [FHE_toBytes32 demo_lib 80] (abi_word 80) []"
    by (simp_all add: demo_lib_def take_abi_word be_uint256_abi_word)
  have okb: "fst (exec demo_lib ?mb (RevealBuyerPrice 1001 (abi_word 100) [1]) ?S2) = None"
    by (simp add: exec_revealBuyerPrice demo_setup_session mb chk abi_decode_abi_word
        del: exec.simps)
  have oks: "fst (exec demo_lib ?ms (RevealSellerPrice 1001 (abi_word 80) [1]) ?S3) = None"
    by (simp add: exec_revealSellerPrice demo_open_session ms chk abi_decode_abi_word
        del: exec.simps)
  have pb: "publicBuyerPrice (sessions (snd (exec demo_lib ?mb
      (RevealBuyerPrice 1001 (abi_word 100) [1]) ?S2)) 1001) = 100"
    by (simp add: exec_revealBuyerPrice demo_setup_session mb chk abi_decode_abi_word
        del: exec.simps)
  have ps: "publicSellerPrice (sessions (snd (exec demo_lib ?ms
      (RevealSellerPrice 1001 (abi_word 80) [1]) ?S3)) 1001) = 80"
    by (simp add: exec_revealSellerPrice demo_open_session ms chk abi_decode_abi_word
        del: exec.simps)
  note A = reveal_checks_in_order [where lib = demo_lib and m = ?mb and m' = ?mb and sid = 1001
      and cv = "abi_word 100" and dp = "[1]" and cv' = "abi_word 9" and dp' = "[1]"
      and s = ?S2 and rest = demo_late]
  note B1 = reveal_checks_in_order [where lib = demo_lib and m = ?mb and sid = 7
      and cv = "abi_word 100" and dp = "[1]" and s = ?S2]
  note B2 = reveal_checks_in_order [where lib = demo_lib and m = ?ms and sid = 1001
      and cv = "abi_word 100" and dp = "[1]" and s = ?S2]
  note B3 = reveal_checks_in_order [where lib = demo_lib and m = ?mb and sid = 1001
      and cv = "abi_word 100" and dp = "[]" and s = ?S2]
  note B4 = reveal_checks_in_order [where lib = demo_lib and m = ?mb and sid = 1001
      and cv = "abi_word 100" and dp = "[1]" and s = ?S3]
  note C = reveal_checks_in_order [where lib = demo_lib and m = ?ms and m' = ?ms and sid = 1001
      and cv = "abi_word 80" and dp = "[1]" and cv' = "abi_word 9" and dp' = "[1]"
      and s = ?S3 and rest = demo_late]
  note D1 = reveal_checks_in_order [where lib = demo_lib and m = ?ms and sid = 7
      and cv = "abi_word 80" and dp = "[1]" and s = ?S3]
  note D2 = reveal_checks_in_order [where lib = demo_lib and m = ?mb and sid = 1001
      and cv = "abi_word 80" and dp = "[1]" and s = ?S3]
  note D3 = reveal_checks_in_order [where lib = demo_lib and m = ?ms and sid = 1001
      and cv = "abi_word 80" and dp = "[]" and s = ?S3]
  note D4 = reveal_checks_in_order [where lib = demo_lib and m = ?ms and sid = 1001
      and cv = "abi_word 80" and dp = "[1]" and s = ?S4]
  have a: "fst (exec demo_lib ?mb (RevealBuyerPrice 1001 (abi_word 100) [1]) ?S2) = None \<and>
    msg_sender ?mb = buyer (sessions ?S2 1001) \<and>
    events (snd (exec demo_lib ?mb (RevealBuyerPrice 1001 (abi_word 100) [1]) ?S2)) =
      events ?S2 @ [PriceRevealed 1001 1 100] \<and>
    exec demo_lib ?mb (RevealBuyerPrice 1001 (abi_word 9) [1])
       (run demo_lib (snd (exec demo_lib ?mb (RevealBuyerPrice 1001 (abi_word 100) [1]) ?S2)) demo_late) =
      (Some BuyerAlreadyRevealed,
       run demo_lib (snd (exec demo_lib ?mb (RevealBuyerPrice 1001 (abi_word 100) [1]) ?S2)) demo_late)"
    using A okb pb by (simp add: demo_setup_session mb del: exec.simps)
  have b: "timestamp (sessions ?S2 7) = 0 \<and>
    exec demo_lib ?mb (RevealBuyerPrice 7 (abi_word 100) [1]) ?S2 = (Some SessionDoesNotExist, ?S2) \<and>
    exec demo_lib ?ms (RevealBuyerPrice 1001 (abi_word 100) [1]) ?S2 = (Some OnlyBuyerCanReveal, ?S2) \<and>
    exec demo_lib ?mb (RevealBuyerPrice 1001 (abi_word 100) []) ?S2 = (Some InvalidDecryptionProof, ?S2) \<and>
    exec demo_lib ?mb (RevealBuyerPrice 1001 (abi_word 100) [1]) ?S3 = (Some BuyerAlreadyRevealed, ?S3)"
    using B1 B2 B3 B4 absent chk
    by (simp add: demo_setup_session demo_open_session mb ms del: exec.simps)
  have c: "fst (exec demo_lib ?ms (RevealSellerPrice 1001 (abi_word 80) [1]) ?S3) = None \<and>
    msg_sender ?ms = seller (sessions ?S3 1001) \<and>
    events (snd (exec demo_lib ?ms (RevealSellerPrice 1001 (abi_word 80) [1]) ?S3)) =
      events ?S3 @ [PriceRevealed 1001 2 80, DealMatched 1001 80] \<and>
    exec demo_lib ?ms (RevealSellerPrice 1001 (abi_word 9) [1])
       (run demo_lib (snd (exec demo_lib ?ms (RevealSellerPrice 1001 (abi_word 80) [1]) ?S3)) demo_late) =
      (Some SellerAlreadyRevealed,
       run demo_lib (snd (exec demo_lib ?ms (RevealSellerPrice 1001 (abi_word 80) [1]) ?S3)) demo_late)"
    using C oks ps by (simp add: demo_open_session ms del: exec.simps)
  have d: "exec demo_lib ?ms (RevealSellerPrice 7 (abi_word 80) [1]) ?S3 = (Some SessionDoesNotExist, ?S3) \<and>
    exec demo_lib ?mb (RevealSellerPrice 1001 (abi_word 80) [1]) ?S3 = (Some OnlySellerCanReveal, ?S3) \<and>
    exec demo_lib ?ms (RevealSellerPrice 1001 (abi_word 80) []) ?S3 = (Some InvalidDecryptionProof, ?S3) \<and>
    exec demo_lib ?ms (RevealSellerPrice 1001 (abi_word 80) [1]) ?S4 = (Some SellerAlreadyRevealed, ?S4)"
    using D1 D2 D3 D4 absent chk
    by (simp add: demo_open_session demo_session mb ms del: exec.simps)
  from a b c d show ?thesis by (intro conjI) blast+
qed

subsection \<open>The create and join transactions, case by case\<close>

lemma exec_createSession:
  "exec lib m (CreateSession eb es bp sp pb ps) s =
    (let sid = keccak256_packed lib (msg_sender m) (block_timestamp m) in
     if timestamp (sessions s sid) \<noteq> 0 then (Some SessionAlreadyExists, s) else
     case FHE_fromExternal lib (msg_sender m) eb bp of
       None \<Rightarrow> (Some InputProofRejected, s)
     | Some hb \<Rightarrow>
     case FHE_fromExternal lib (msg_sender m) es sp of
       None \<Rightarrow> (Some InputProofRejected, s)
     | Some hs \<Rightarrow>
     if \<not> FHE_isInitialized lib hb then (Some InvalidBuyerEncryption, s) else
     if \<not> FHE_isInitialized lib hs then (Some InvalidSellerEncryption, s) else
     if \<not> FHE_allowThis lib hb \<or> \<not> FHE_allowThis lib hs then (Some AclRejected, s) else
     (None,
      s\<lparr>sessions := (sessions s)(sid :=
           \<lparr>buyer = msg_sender m, seller = 0, encryptedBuyerPrice = hb,
            encryptedSellerPrice = hs, publicBuyerPrice = pb, publicSellerPrice = ps,
            buyerRevealed = False, sellerRevealed = False, dealMatched = False,
            timestamp = block_timestamp m\<rparr>),
        sessionIds := sessionIds s @ [sid],
        events := events s @ [SessionCreated sid (msg_sender m) 0]\<rparr>))"
  by (auto simp: transact_def createSession_def Let_def emit_def store_session_def
      split: option.splits)

lemma exec_joinSession:
  "exec lib m (JoinSession sid es sp ps) s =
    (if timestamp (sessions s sid) = 0 then (Some SessionDoesNotExist, s) else
     if seller (sessions s sid) \<noteq> 0 then (Some SessionAlreadyJoined, s) else
     case FHE_fromExternal lib (msg_sender m) es sp of
       None \<Rightarrow> (Some InputProofRejected, s)
     | Some h \<Rightarrow>
     if \<not> FHE_isInitialized lib h then (Some InvalidSellerEncryption, s) else
     if \<not> FHE_allowThis lib h then (Some AclRejected, s) else
     (None,
      s\<lparr>sessions := (sessions s)(sid := (sessions s sid)
           \<lparr>seller := msg_sender m, encryptedSellerPrice := h, publicSellerPrice := ps\<rparr>),
        events := events s @ [SessionCreated sid (buyer (sessions s sid)) (msg_sender m)]\<rparr>))"
  by (auto simp: transact_def joinSession_def Let_def emit_def store_session_def word_gt_0
      split: option.splits)

text \<open>
  Inside the function bodies every \<open>require\<close>, every ingestion and every proof check comes
  before the first write: a body that reverts for any reason but a refusal of
  \<open>FHE.allowThis\<close> has written nothing at the point where it reverts.
\<close>

lemma createSession_checks_before_writes:
  "fst (createSession lib m eb es bp sp pb ps s) = Inl e \<Longrightarrow> e \<noteq> AclRejected \<Longrightarrow>
     snd (createSession lib m eb es bp sp pb ps s) = s"
  by (auto simp: createSession_def Let_def split: option.splits if_splits)

lemma joinSession_checks_before_writes:
  "fst (joinSession lib m sid es sp ps s) = Inl e \<Longrightarrow> e \<noteq> AclRejected \<Longrightarrow>
     snd (joinSession lib m sid es sp ps s) = s"
  by (auto simp: joinSession_def Let_def split: option.splits if_splits)

lemma revealBuyerPrice_checks_before_writes:
  "fst (revealBuyerPrice lib m sid cv dp s) = Inl e \<Longrightarrow> snd (revealBuyerPrice lib m sid cv dp s) = s"
  by (auto simp: revealBuyerPrice_def Let_def split: option.splits if_splits)

lemma revealSellerPrice_checks_before_writes:
  "fst (revealSellerPrice lib m sid cv dp s) = Inl e \<Longrightarrow> snd (revealSellerPrice lib m sid cv dp s) = s"
  by (auto simp: revealSellerPrice_def Let_def split: option.splits if_splits)

text \<open>
  C4.  A transaction that reverts leaves the contract as it was: the session table, the
  list of session ids and the event log are those before the call, for every external
  function.  Apart from a refusal by the access-control contract, which the revert rolls
  back, a function that fails has not written anything when it fails.  A \<open>createSession\<close>
  whose derived id has a nonzero \<open>timestamp\<close> reverts with "Session already exists" at its
  first statement, before any write.
\<close>

theorem failed_call_changes_nothing:
  "(outcome lib (m, c) s \<noteq> None \<longrightarrow>
      step lib (m, c) s = s \<and> sessions (step lib (m, c) s) = sessions s \<and>
      sessionIds (step lib (m, c) s) = sessionIds s \<and> events (step lib (m, c) s) = events s) \<and>
   (fst (createSession lib m eb es bp sp pb ps s) = Inl e \<and> e \<noteq> AclRejected \<longrightarrow>
      snd (createSession lib m eb es bp sp pb ps s) = s) \<and>
   (fst (joinSession lib m sid es' sp' ps' s) = Inl e \<and> e \<noteq> AclRejected \<longrightarrow>
      snd (joinSession lib m sid es' sp' ps' s) = s) \<and>
   (fst (revealBuyerPrice lib m sid cv dp s) = Inl e \<longrightarrow>
      snd (revealBuyerPrice lib m sid cv dp s) = s) \<and>
   (fst (revealSellerPrice lib m sid cv dp s) = Inl e \<longrightarrow>
      snd (revealSellerPrice lib m sid cv dp s) = s) \<and>
   (timestamp (sessions s (keccak256_packed lib (msg_sender m) (block_timestamp m))) \<noteq> 0 \<longrightarrow>
      createSession lib m eb es bp sp pb ps s = (Inl SessionAlreadyExists, s) \<and>
      outcome lib (m, CreateSession eb es bp sp pb ps) s = Some SessionAlreadyExists \<and>
      step lib (m, CreateSession eb es bp sp pb ps) s = s)"
proof (intro conjI impI)
  assume f: "outcome lib (m, c) s \<noteq> None"
  show st: "step lib (m, c) s = s"
  proof (cases c)
    case (CreateSession eb es bp sp pb ps)
    with f show ?thesis
      by (simp add: outcome_def step_def transact_def split: prod.splits sum.splits)
  next
    case (JoinSession sid es sp ps)
    with f show ?thesis
      by (simp add: outcome_def step_def transact_def split: prod.splits sum.splits)
  next
    case (RevealBuyerPrice sid cv dp)
    with f show ?thesis
      by (simp add: outcome_def step_def transact_def split: prod.splits sum.splits)
  next
    case (RevealSellerPrice sid cv dp)
    with f show ?thesis
      by (simp add: outcome_def step_def transact_def split: prod.splits sum.splits)
  next
    case (GetEncryptedPrices sid)
    then show ?thesis by (simp add: step_def split: sum.splits)
  next
    case (GetSession sid)
    then show ?thesis by (simp add: step_def split: sum.splits)
  next
    case GetAllSessionIds
    then show ?thesis by (simp add: step_def)
  next
    case IsAvailable
    then show ?thesis by (simp add: step_def)
  qed
  show "sessions (step lib (m, c) s) = sessions s"
    "sessionIds (step lib (m, c) s) = sessionIds s" "events (step lib (m, c) s) = events s"
    by (simp_all add: st)
next
  assume "fst (createSession lib m eb es bp sp pb ps s) = Inl e \<and> e \<noteq> AclRejected"
  then show "snd (createSession lib m eb es bp sp pb ps s) = s"
    by (simp add: createSession_checks_before_writes)
next
  assume "fst (joinSession lib m sid es' sp' ps' s) = Inl e \<and> e \<noteq> AclRejected"
  then show "snd (joinSession lib m sid es' sp' ps' s) = s"
    by (simp add: joinSession_checks_before_writes)
next
  assume "fst (revealBuyerPrice lib m sid cv dp s) = Inl e"
  then show "snd (revealBuyerPrice lib m sid cv dp s) = s"
    by (rule revealBuyerPrice_checks_before_writes)
next
  assume "fst (revealSellerPrice lib m sid cv dp s) = Inl e"
  then show "snd (revealSellerPrice lib m sid cv dp s) = s"
    by (rule revealSellerPrice_checks_before_writes)
next
  assume e: "timestamp (sessions s (keccak256_packed lib (msg_sender m) (block_timestamp m))) \<noteq> 0"
  then show "createSession lib m eb es bp sp pb ps s = (Inl SessionAlreadyExists, s)"
    by (simp add: createSession_def)
  from e show "outcome lib (m, CreateSession eb es bp sp pb ps) s = Some SessionAlreadyExists"
    by (simp add: outcome_def exec_createSession del: exec.simps)
  from e show "step lib (m, CreateSession eb es bp sp pb ps) s = s"
    by (simp add: step_def exec_createSession del: exec.simps)
qed

theorem failed_call_changes_nothing_witness:
  "(timestamp (sessions (run demo_lib init_contract demo_setup)
      (keccak256_packed demo_lib (msg_sender (fst demo_create)) (block_timestamp (fst demo_create)))) \<noteq> 0 \<and>
    outcome demo_lib demo_create (run demo_lib init_contract demo_setup) \<noteq> None \<and>
    createSession demo_lib (fst demo_create) 100 7 [1] [1] 0 0 (run demo_lib init_contract demo_setup) =
      (Inl SessionAlreadyExists, run demo_lib init_contract demo_setup) \<and>
    step demo_lib demo_create (run demo_lib init_contract demo_setup) =
      run demo_lib init_contract demo_setup \<and>
    sessions (step demo_lib demo_create (run demo_lib init_contract demo_setup)) =
      sessions (run demo_lib init_contract demo_setup) \<and>
    sessionIds (step demo_lib demo_create (run demo_lib init_contract demo_setup)) =
      sessionIds (run demo_lib init_contract demo_setup) \<and>
    events (step demo_lib demo_create (run demo_lib init_contract demo_setup)) =
      events (run demo_lib init_contract demo_setup)) \<and>
   (fst (joinSession demo_lib (fst demo_create) 1001 5 [1] 500
          (run demo_lib init_contract demo_setup)) = Inl SessionAlreadyJoined \<and>
    snd (joinSession demo_lib (fst demo_create) 1001 5 [1] 500
          (run demo_lib init_contract demo_setup)) = run demo_lib init_contract demo_setup) \<and>
   (fst (revealBuyerPrice demo_lib (fst demo_create) 1001 (abi_word 100) []
          (run demo_lib init_contract demo_setup)) = Inl InvalidDecryptionProof \<and>
    snd (revealBuyerPrice demo_lib (fst demo_create) 1001 (abi_word 100) []
          (run demo_lib init_contract demo_setup)) = run demo_lib init_contract demo_setup) \<and>
   (fst (revealSellerPrice demo_lib (fst demo_create) 1001 (abi_word 80) [1]
          (run demo_lib init_contract demo_setup)) = Inl OnlySellerCanReveal \<and>
    snd (revealSellerPrice demo_lib (fst demo_create) 1001 (abi_word 80) [1]
          (run demo_lib init_contract demo_setup)) = run demo_lib init_contract demo_setup)"
proof -
  let ?S = "run demo_lib init_contract demo_setup"
  let ?m = "fst demo_create"
  have k: "keccak256_packed demo_lib (msg_sender ?m) (block_timestamp ?m) = 1001"
    by (simp add: demo_lib_def demo_create_def)
  have e: "timestamp (sessions ?S (keccak256_packed demo_lib (msg_sender ?m) (block_timestamp ?m))) \<noteq> 0"
    by (simp add: k demo_setup_session)
  have dc: "demo_create = (?m, CreateSession 100 7 [1] [1] 0 0)"
    by (simp add: demo_create_def)
  have m: "msg_sender ?m = 1"
    by (simp add: demo_create_def)
  have fj: "fst (joinSession demo_lib ?m 1001 5 [1] 500 ?S) = Inl SessionAlreadyJoined"
    unfolding joinSession_def demo_setup_session by simp
  have nv: "\<not> FHE_checkSignatures demo_lib [FHE_toBytes32 demo_lib 100] (abi_word 100) []"
    by (simp add: demo_lib_def)
  have fb: "fst (revealBuyerPrice demo_lib ?m 1001 (abi_word 100) [] ?S) = Inl InvalidDecryptionProof"
    unfolding revealBuyerPrice_def demo_setup_session using nv by (simp add: m)
  have fs: "fst (revealSellerPrice demo_lib ?m 1001 (abi_word 80) [1] ?S) = Inl OnlySellerCanReveal"
    unfolding revealSellerPrice_def demo_setup_session by (simp add: m)
  note t1 = failed_call_changes_nothing [where lib = demo_lib and m = ?m
      and c = "CreateSession 100 7 [1] [1] 0 0" and s = ?S and eb = 100 and es = 7
      and bp = "[1]" and sp = "[1]" and pb = 0 and ps = 0, folded dc]
  note t2 = failed_call_changes_nothing [where lib = demo_lib and m = ?m and s = ?S
      and sid = 1001 and es' = 5 and sp' = "[1]" and ps' = 500 and e = SessionAlreadyJoined]
  note t3 = failed_call_changes_nothing [where lib = demo_lib and m = ?m and s = ?S
      and sid = 1001 and cv = "abi_word 100" and dp = "[]" and e = InvalidDecryptionProof]
  note t4 = failed_call_changes_nothing [where lib = demo_lib and m = ?m and s = ?S
      and sid = 1001 and cv = "abi_word 80" and dp = "[1]" and e = OnlySellerCanReveal]
  have a: "timestamp (sessions ?S (keccak256_packed demo_lib (msg_sender ?m) (block_timestamp ?m))) \<noteq> 0 \<and>
    outcome demo_lib demo_create ?S \<noteq> None \<and>
    createSession demo_lib ?m 100 7 [1] [1] 0 0 ?S = (Inl SessionAlreadyExists, ?S) \<and>
    step demo_lib demo_create ?S = ?S \<and>
    sessions (step demo_lib demo_create ?S) = sessions ?S \<and>
    sessionIds (step demo_lib demo_create ?S) = sessionIds ?S \<and>
    events (step demo_lib demo_create ?S) = events ?S"
    using t1 e by simp
  have b: "fst (joinSession demo_lib ?m 1001 5 [1] 500 ?S) = Inl SessionAlreadyJoined \<and>
    snd (joinSession demo_lib ?m 1001 5 [1] 500 ?S) = ?S"
    using t2 fj by blast
  have c: "fst (revealBuyerPrice demo_lib ?m 1001 (abi_word 100) [] ?S) = Inl InvalidDecryptionProof \<and>
    snd (revealBuyerPrice demo_lib ?m 1001 (abi_word 100) [] ?S) = ?S"
    using t3 fb by blast
  have d: "fst (revealSellerPrice demo_lib ?m 1001 (abi_word 80) [1] ?S) = Inl OnlySellerCanReveal \<and>
    snd (revealSellerPrice demo_lib ?m 1001 (abi_word 80) [1] ?S) = ?S"
    using t4 fs by blast
  from a b c d show ?thesis by (intro conjI) blast+
qed

text \<open>
  C5 as stated fails: a \<open>createSession\<close> with a fresh id and a buyer handle that passes
  the validity predicate reverts with "Invalid seller encryption" when the seller handle
  it was given is not initialised.
\<close>

theorem createSession_buyer_only_counterexample:
  "timestamp (sessions init_contract (keccak256_packed demo_lib 1 1000)) = 0 \<and>
   FHE_fromExternal demo_lib 1 100 [1] = Some 100 \<and>
   FHE_isInitialized demo_lib 100 \<and>
   exec demo_lib \<lparr>msg_sender = 1, block_timestamp = 1000\<rparr> (CreateSession 100 0 [1] [1] 0 0)
      init_contract = (Some InvalidSellerEncryption, init_contract)"
  by (simp add: demo_lib_def init_contract_def zero_session_def transact_def createSession_def)

text \<open>
  C5, amended.  \<open>createSession\<close> takes two ciphertext handles, the buyer's and a seller's,
  each with its ingestion proof, and two provisional prices, and ingests both handles.
  For a call whose derived id is fresh and whose two ingestions return, it reverts with
  "Invalid buyer encryption" exactly when the buyer's handle fails the validity
  predicate, and with "Invalid seller encryption" exactly when the buyer's handle passes
  and the seller's fails; when both pass (and the access-control calls are accepted) it
  commits and stores both handles.
\<close>

theorem createSession_checks_both_ciphertexts:
  fixes lib :: fhe and m :: msg_ctx and s :: contract
    and eb es :: externalEuint32 and bp sp :: bytes and pb ps :: uint256
  defines "sid \<equiv> keccak256_packed lib (msg_sender m) (block_timestamp m)"
  defines "x \<equiv> exec lib m (CreateSession eb es bp sp pb ps) s"
  assumes fresh: "timestamp (sessions s sid) = 0"
    and ingb: "FHE_fromExternal lib (msg_sender m) eb bp = Some hb"
    and ings: "FHE_fromExternal lib (msg_sender m) es sp = Some hs"
  shows "(fst x = Some InvalidBuyerEncryption \<longleftrightarrow> \<not> FHE_isInitialized lib hb) \<and>
         (fst x = Some InvalidSellerEncryption \<longleftrightarrow>
            FHE_isInitialized lib hb \<and> \<not> FHE_isInitialized lib hs) \<and>
         (fst x = None \<longleftrightarrow>
            FHE_isInitialized lib hb \<and> FHE_isInitialized lib hs \<and>
            FHE_allowThis lib hb \<and> FHE_allowThis lib hs) \<and>
         (fst x = None \<longrightarrow>
            encryptedBuyerPrice (sessions (snd x) sid) = hb \<and>
            encryptedSellerPrice (sessions (snd x) sid) = hs)"
  using fresh ingb ings unfolding x_def exec_createSession sid_def
  by (simp add: Let_def)

theorem createSession_checks_both_ciphertexts_witness:
  "timestamp (sessions init_contract (keccak256_packed demo_lib 1 1000)) = 0 \<and>
   FHE_fromExternal demo_lib 1 100 [1] = Some 100 \<and>
   FHE_fromExternal demo_lib 1 0 [1] = Some 0 \<and>
   FHE_fromExternal demo_lib 1 7 [1] = Some 7 \<and>
   fst (exec demo_lib \<lparr>msg_sender = 1, block_timestamp = 1000\<rparr> (CreateSession 100 0 [1] [1] 0 0)
      init_contract) = Some InvalidSellerEncryption \<and>
   fst (exec demo_lib \<lparr>msg_sender = 1, block_timestamp = 1000\<rparr> (CreateSession 0 7 [1] [1] 0 0)
      init_contract) = Some InvalidBuyerEncryption \<and>
   fst (exec demo_lib \<lparr>msg_sender = 1, block_timestamp = 1000\<rparr> (CreateSession 100 7 [1] [1] 0 0)
      init_contract) = None \<and>
   encryptedSellerPrice (sessions (snd (exec demo_lib \<lparr>msg_sender = 1, block_timestamp = 1000\<rparr>
      (CreateSession 100 7 [1] [1] 0 0) init_contract)) (keccak256_packed demo_lib 1 1000)) = 7"
proof -
  let ?m = "\<lparr>msg_sender = 1, block_timestamp = 1000\<rparr>"
  have f: "timestamp (sessions init_contract
      (keccak256_packed demo_lib (msg_sender ?m) (block_timestamp ?m))) = 0"
    by (simp add: init_contract_def zero_session_def)
  have i100: "FHE_fromExternal demo_lib (msg_sender ?m) 100 [1] = Some 100"
    and i0: "FHE_fromExternal demo_lib (msg_sender ?m) 0 [1] = Some 0"
    and i7: "FHE_fromExternal demo_lib (msg_sender ?m) 7 [1] = Some 7"
    by (simp_all add: demo_lib_def)
  have v: "FHE_isInitialized demo_lib 100" "FHE_isInitialized demo_lib 7"
    "\<not> FHE_isInitialized demo_lib 0" "FHE_allowThis demo_lib 100" "FHE_allowThis demo_lib 7"
    by (simp_all add: demo_lib_def)
  note a = createSession_checks_both_ciphertexts [OF f i100 i0, of 0 0]
  note b = createSession_checks_both_ciphertexts [OF f i0 i7, of 0 0]
  note c = createSession_checks_both_ciphertexts [OF f i100 i7, of 0 0]
  from a b c v f i100 i0 i7 show ?thesis
    by (simp del: exec.simps)
qed

lemma joinSession_again:
  assumes "timestamp (sessions s sid) \<noteq> 0" "seller (sessions s sid) \<noteq> 0"
  shows "exec lib m' (JoinSession sid es' sp' ps') (run lib s rest) =
           (Some SessionAlreadyJoined, run lib s rest) \<and>
         seller (sessions (run lib s rest) sid) = seller (sessions s sid)"
  using run_session_fixed [OF assms(1), of lib rest] assms
  by (simp add: exec_joinSession del: exec.simps)

text \<open>
  C6.  \<open>joinSession\<close> reverts with "Session does not exist" on an absent session and with
  "Session already joined" on a session whose seller is set.  A join that commits has
  ingested a seller handle that passes the validity predicate; it writes the caller as
  \<open>seller\<close>, that handle as \<open>encryptedSellerPrice\<close> and the given price as
  \<open>publicSellerPrice\<close>, and appends \<open>SessionCreated(sessionId, buyer, caller)\<close>.  After a
  join committed by a caller other than \<open>address(0)\<close>, and after any further calls, every
  join of that session reverts with "Session already joined" and the seller is still the
  first caller.
\<close>

theorem joinSession_binds_seller_once:
  fixes lib :: fhe and m m' :: msg_ctx and sid :: bytes32 and es es' :: externalEuint32
    and sp sp' :: bytes and ps ps' :: uint256 and s :: contract
    and rest :: "(msg_ctx \<times> call) list"
  defines "r \<equiv> sessions s sid"
  defines "j \<equiv> exec lib m (JoinSession sid es sp ps) s"
  shows
    "(timestamp r = 0 \<longrightarrow> j = (Some SessionDoesNotExist, s)) \<and>
     (timestamp r \<noteq> 0 \<and> seller r \<noteq> 0 \<longrightarrow> j = (Some SessionAlreadyJoined, s)) \<and>
     (fst j = None \<longrightarrow>
        seller r = 0 \<and>
        (\<exists>h. FHE_fromExternal lib (msg_sender m) es sp = Some h \<and> FHE_isInitialized lib h \<and>
             encryptedSellerPrice (sessions (snd j) sid) = h) \<and>
        seller (sessions (snd j) sid) = msg_sender m \<and>
        publicSellerPrice (sessions (snd j) sid) = ps \<and>
        events (snd j) = events s @ [SessionCreated sid (buyer r) (msg_sender m)] \<and>
        (msg_sender m \<noteq> 0 \<longrightarrow>
           exec lib m' (JoinSession sid es' sp' ps') (run lib (snd j) rest) =
             (Some SessionAlreadyJoined, run lib (snd j) rest) \<and>
           seller (sessions (run lib (snd j) rest) sid) = msg_sender m))"
proof -
  note cj = exec_joinSession [of lib m sid es sp ps s, folded j_def r_def]
  have j1: "timestamp r = 0 \<longrightarrow> j = (Some SessionDoesNotExist, s)"
    and j2: "timestamp r \<noteq> 0 \<and> seller r \<noteq> 0 \<longrightarrow> j = (Some SessionAlreadyJoined, s)"
    by (simp_all add: cj)
  have j3: "fst j = None \<longrightarrow>
        seller r = 0 \<and>
        (\<exists>h. FHE_fromExternal lib (msg_sender m) es sp = Some h \<and> FHE_isInitialized lib h \<and>
             encryptedSellerPrice (sessions (snd j) sid) = h) \<and>
        seller (sessions (snd j) sid) = msg_sender m \<and>
        publicSellerPrice (sessions (snd j) sid) = ps \<and>
        events (snd j) = events s @ [SessionCreated sid (buyer r) (msg_sender m)]"
    by (simp add: cj r_def split: option.splits)
  have j4: "fst j = None \<longrightarrow> timestamp (sessions (snd j) sid) \<noteq> 0"
    by (simp add: cj r_def split: option.splits)
  have j5: "fst j = None \<longrightarrow> (msg_sender m \<noteq> 0 \<longrightarrow>
           exec lib m' (JoinSession sid es' sp' ps') (run lib (snd j) rest) =
             (Some SessionAlreadyJoined, run lib (snd j) rest) \<and>
           seller (sessions (run lib (snd j) rest) sid) = msg_sender m)"
    using j3 j4 joinSession_again [of "snd j" sid lib m' es' sp' ps' rest] by simp
  from j1 j2 j3 j5 show ?thesis by blast
qed

theorem joinSession_binds_seller_once_witness:
  "(timestamp (sessions init_contract 1001) = 0 \<and>
    exec demo_lib (fst demo_join) (JoinSession 1001 80 [1] 0) init_contract =
      (Some SessionDoesNotExist, init_contract)) \<and>
   (fst (exec demo_lib (fst demo_join) (JoinSession 1001 80 [1] 0)
          (step demo_lib demo_create init_contract)) = None \<and>
    msg_sender (fst demo_join) \<noteq> 0 \<and>
    seller (sessions (snd (exec demo_lib (fst demo_join) (JoinSession 1001 80 [1] 0)
          (step demo_lib demo_create init_contract))) 1001) = 2 \<and>
    events (snd (exec demo_lib (fst demo_join) (JoinSession 1001 80 [1] 0)
          (step demo_lib demo_create init_contract))) =
      events (step demo_lib demo_create init_contract) @ [SessionCreated 1001 1 2] \<and>
    exec demo_lib \<lparr>msg_sender = 3, block_timestamp = 1009\<rparr> (JoinSession 1001 5 [1] 500)
       (run demo_lib (snd (exec demo_lib (fst demo_join) (JoinSession 1001 80 [1] 0)
          (step demo_lib demo_create init_contract))) demo_late) =
      (Some SessionAlreadyJoined,
       run demo_lib (snd (exec demo_lib (fst demo_join) (JoinSession 1001 80 [1] 0)
          (step demo_lib demo_create init_contract))) demo_late) \<and>
    seller (sessions (run demo_lib (snd (exec demo_lib (fst demo_join) (JoinSession 1001 80 [1] 0)
          (step demo_lib demo_create init_contract))) demo_late) 1001) = 2) \<and>
   (timestamp (sessions (run demo_lib init_contract demo_setup) 1001) \<noteq> 0 \<and>
    seller (sessions (run demo_lib init_contract demo_setup) 1001) \<noteq> 0 \<and>
    exec demo_lib \<lparr>msg_sender = 3, block_timestamp = 1009\<rparr> (JoinSession 1001 5 [1] 500)
       (run demo_lib init_contract demo_setup) =
      (Some SessionAlreadyJoined, run demo_lib init_contract demo_setup))"
proof -
  let ?S1 = "step demo_lib demo_create init_contract"
  let ?S2 = "run demo_lib init_contract demo_setup"
  let ?mj = "fst demo_join"
  let ?m3 = "\<lparr>msg_sender = 3, block_timestamp = 1009\<rparr>"
  have mj: "msg_sender ?mj = 2"
    by (simp add: demo_join_def)
  have s1: "sessions ?S1 1001 =
     \<lparr>buyer = 1, seller = 0, encryptedBuyerPrice = 100, encryptedSellerPrice = 7,
      publicBuyerPrice = 0, publicSellerPrice = 0, buyerRevealed = False,
      sellerRevealed = False, dealMatched = False, timestamp = 1000\<rparr>"
    by (simp add: demo_simps)
  have lib: "FHE_fromExternal demo_lib 2 80 [1] = Some 80" "FHE_isInitialized demo_lib 80"
    "FHE_allowThis demo_lib 80"
    by (simp_all add: demo_lib_def)
  have ok: "fst (exec demo_lib ?mj (JoinSession 1001 80 [1] 0) ?S1) = None"
    by (simp add: exec_joinSession s1 mj lib del: exec.simps)
  have absent: "timestamp (sessions init_contract 1001) = 0"
    by (simp add: init_contract_def zero_session_def)
  note a = joinSession_binds_seller_once [where lib = demo_lib and m = ?mj and sid = 1001
      and es = 80 and sp = "[1]" and ps = 0 and s = init_contract]
  note b = joinSession_binds_seller_once [where lib = demo_lib and m = ?mj and m' = ?m3
      and sid = 1001 and es = 80 and sp = "[1]" and ps = 0 and es' = 5 and sp' = "[1]"
      and ps' = 500 and s = ?S1 and rest = demo_late]
  note c = joinSession_binds_seller_once [where lib = demo_lib and m = ?m3 and sid = 1001
      and es = 5 and sp = "[1]" and ps = 500 and s = ?S2]
  have A: "timestamp (sessions init_contract 1001) = 0 \<and>
    exec demo_lib ?mj (JoinSession 1001 80 [1] 0) init_contract =
      (Some SessionDoesNotExist, init_contract)"
    using a absent by (simp del: exec.simps)
  have B: "fst (exec demo_lib ?mj (JoinSession 1001 80 [1] 0) ?S1) = None \<and>
    msg_sender ?mj \<noteq> 0 \<and>
    seller (sessions (snd (exec demo_lib ?mj (JoinSession 1001 80 [1] 0) ?S1)) 1001) = 2 \<and>
    events (snd (exec demo_lib ?mj (JoinSession 1001 80 [1] 0) ?S1)) =
      events ?S1 @ [SessionCreated 1001 1 2] \<and>
    exec demo_lib ?m3 (JoinSession 1001 5 [1] 500)
       (run demo_lib (snd (exec demo_lib ?mj (JoinSession 1001 80 [1] 0) ?S1)) demo_late) =
      (Some SessionAlreadyJoined,
       run demo_lib (snd (exec demo_lib ?mj (JoinSession 1001 80 [1] 0) ?S1)) demo_late) \<and>
    seller (sessions (run demo_lib (snd (exec demo_lib ?mj (JoinSession 1001 80 [1] 0) ?S1))
       demo_late) 1001) = 2"
    using b ok by (simp add: s1 mj del: exec.simps)
  have C: "timestamp (sessions ?S2 1001) \<noteq> 0 \<and> seller (sessions ?S2 1001) \<noteq> 0 \<and>
    exec demo_lib ?m3 (JoinSession 1001 5 [1] 500) ?S2 = (Some SessionAlreadyJoined, ?S2)"
    using c by (simp add: demo_setup_session del: exec.simps)
  from A B C show ?thesis by (intro conjI) blast+
qed

subsection \<open>The creation log\<close>

lemma created_single_create:
  "created lib s [(m, CreateSession eb es bp sp pb ps)] =
     (if outcome lib (m, CreateSession eb es bp sp pb ps) s = None
      then [keccak256_packed lib (msg_sender m) (block_timestamp m)] else [])"
  by (auto simp: outcome_def transact_def createSession_def Let_def split: option.splits)

lemma step_log:
  assumes "log_inv s" "block_timestamp m \<noteq> 0"
  shows "log_inv (step lib (m, c) s) \<and>
         sessionIds (step lib (m, c) s) = sessionIds s @ created lib s [(m, c)]"
proof (cases c)
  case (CreateSession eb es bp sp pb ps)
  show ?thesis
    unfolding CreateSession created_single_create
    using assms
    by (auto simp: log_inv_def step_def outcome_def exec_createSession Let_def
        simp del: exec.simps split: option.splits if_splits)
next
  case (JoinSession sid es sp ps)
  show ?thesis
    unfolding JoinSession using assms
    by (auto simp: log_inv_def step_def exec_joinSession simp del: exec.simps
        split: option.splits if_splits)
next
  case (RevealBuyerPrice sid cv dp)
  show ?thesis
    unfolding RevealBuyerPrice using assms
    by (auto simp: log_inv_def step_def exec_revealBuyerPrice simp del: exec.simps
        split: option.splits if_splits)
next
  case (RevealSellerPrice sid cv dp)
  show ?thesis
    unfolding RevealSellerPrice using assms
    by (auto simp: log_inv_def step_def exec_revealSellerPrice simp del: exec.simps
        split: option.splits if_splits)
next
  case (GetEncryptedPrices sid)
  then show ?thesis using assms by (simp add: step_def split: sum.splits)
next
  case (GetSession sid)
  then show ?thesis using assms by (simp add: step_def split: sum.splits)
next
  case GetAllSessionIds
  then show ?thesis using assms by (simp add: step_def)
next
  case IsAvailable
  then show ?thesis using assms by (simp add: step_def)
qed

lemma created_Cons: "created lib s (mc # rest) = created lib s [mc] @ created lib (step lib mc s) rest"
proof (cases mc)
  case (Pair m c)
  then show ?thesis by (cases c) simp_all
qed

lemma length_created: "length (created lib s calls) = committed_creates lib s calls"
proof (induction calls arbitrary: s)
  case Nil
  then show ?case by simp
next
  case (Cons mc calls)
  obtain m c where mc: "mc = (m, c)" by (cases mc)
  have "length (created lib s [mc]) = (if is_create (snd mc) \<and> outcome lib mc s = None then 1 else 0)"
  proof (cases c)
    case (CreateSession eb es bp sp pb ps)
    show ?thesis
      unfolding mc CreateSession created_single_create by simp
  qed (simp_all add: mc)
  then show ?case
    using Cons.IH [of "step lib mc s"] by (simp add: created_Cons [of lib s mc calls])
qed

lemma run_log:
  assumes "log_inv s" "\<forall>mc \<in> set calls. block_timestamp (fst mc) \<noteq> 0"
  shows "log_inv (run lib s calls) \<and>
         sessionIds (run lib s calls) = sessionIds s @ created lib s calls"
  using assms
proof (induction calls arbitrary: s)
  case Nil
  then show ?case by simp
next
  case (Cons mc calls)
  obtain m c where mc: "mc = (m, c)" by (cases mc)
  have t: "block_timestamp m \<noteq> 0"
    using Cons.prems(2) by (simp add: mc)
  note st = step_log [OF Cons.prems(1) t, of lib c, folded mc]
  have "\<forall>mc \<in> set calls. block_timestamp (fst mc) \<noteq> 0"
    using Cons.prems(2) by simp
  from Cons.IH [OF conjunct1 [OF st] this] st
  show ?case by (simp add: created_Cons [of lib s mc calls])
qed

lemma init_log_inv: "log_inv init_contract"
  by (simp add: log_inv_def init_contract_def zero_session_def)

lemma step_sessionIds:
  "sessionIds (step lib (m, c) s) = sessionIds s @ created lib s [(m, c)]"
proof (cases c)
  case (CreateSession eb es bp sp pb ps)
  show ?thesis
    unfolding CreateSession created_single_create
    by (auto simp: step_def outcome_def exec_createSession Let_def
        simp del: exec.simps split: option.splits if_splits)
next
  case (JoinSession sid es sp ps)
  show ?thesis
    unfolding JoinSession
    by (auto simp: step_def exec_joinSession simp del: exec.simps split: option.splits if_splits)
next
  case (RevealBuyerPrice sid cv dp)
  show ?thesis
    unfolding RevealBuyerPrice
    by (auto simp: step_def exec_revealBuyerPrice simp del: exec.simps
        split: option.splits if_splits)
next
  case (RevealSellerPrice sid cv dp)
  show ?thesis
    unfolding RevealSellerPrice
    by (auto simp: step_def exec_revealSellerPrice simp del: exec.simps
        split: option.splits if_splits)
next
  case (GetEncryptedPrices sid)
  then show ?thesis by (simp add: step_def split: sum.splits)
next
  case (GetSession sid)
  then show ?thesis by (simp add: step_def split: sum.splits)
next
  case GetAllSessionIds
  then show ?thesis by (simp add: step_def)
next
  case IsAvailable
  then show ?thesis by (simp add: step_def)
qed

lemma run_sessionIds: "sessionIds (run lib s calls) = sessionIds s @ created lib s calls"
proof (induction calls arbitrary: s)
  case Nil
  then show ?case by simp
next
  case (Cons mc calls)
  obtain m c where mc: "mc = (m, c)" by (cases mc)
  from Cons.IH [of "step lib mc s"] step_sessionIds [of lib m c s, folded mc]
  show ?case by (simp add: created_Cons [of lib s mc calls])
qed

text \<open>
  C7.  After every run from the deployed contract, \<open>getAllSessionIds\<close> returns the ids of
  the committed \<open>createSession\<close> transactions in the order they committed, and its length
  is the number of those transactions.  When no block of the run has timestamp zero, the
  list has no duplicates and its elements are exactly the ids of the existing sessions
  (those with a nonzero \<open>timestamp\<close>).
\<close>

theorem sessionIds_is_creation_log:
  "getAllSessionIds (run lib init_contract calls) = created lib init_contract calls \<and>
   length (getAllSessionIds (run lib init_contract calls)) =
     committed_creates lib init_contract calls \<and>
   ((\<forall>mc \<in> set calls. block_timestamp (fst mc) \<noteq> 0) \<longrightarrow>
      distinct (getAllSessionIds (run lib init_contract calls)) \<and>
      set (getAllSessionIds (run lib init_contract calls)) =
        {sid. timestamp (sessions (run lib init_contract calls) sid) \<noteq> 0})"
proof -
  have ids: "sessionIds (run lib init_contract calls) = created lib init_contract calls"
    using run_sessionIds [of lib init_contract calls] by (simp add: init_contract_def)
  have "log_inv (run lib init_contract calls)"
    if "\<forall>mc \<in> set calls. block_timestamp (fst mc) \<noteq> 0"
    using run_log [OF init_log_inv that, of lib] by simp
  with ids show ?thesis
    by (simp add: getAllSessionIds_def log_inv_def length_created)
qed

theorem sessionIds_is_creation_log_witness:
  "list_all (\<lambda>mc. block_timestamp (fst mc) \<noteq> 0) demo_creates \<and>
   getAllSessionIds (run demo_lib init_contract demo_creates) = [1001, 1003] \<and>
   created demo_lib init_contract demo_creates = [1001, 1003] \<and>
   committed_creates demo_lib init_contract demo_creates = 2 \<and>
   length (getAllSessionIds (run demo_lib init_contract demo_creates)) = 2 \<and>
   distinct (getAllSessionIds (run demo_lib init_contract demo_creates)) \<and>
   set (getAllSessionIds (run demo_lib init_contract demo_creates)) =
     {sid. timestamp (sessions (run demo_lib init_contract demo_creates) sid) \<noteq> 0}"
proof -
  have l: "list_all (\<lambda>mc. block_timestamp (fst mc) \<noteq> 0) demo_creates"
    by (simp add: demo_creates_def demo_create_def demo_join_def)
  then have h: "\<forall>mc \<in> set demo_creates. block_timestamp (fst mc) \<noteq> 0"
    by (simp add: list_all_iff)
  have c: "created demo_lib init_contract demo_creates = [1001, 1003]"
    by (simp add: demo_creates_def demo_simps)
  have n: "committed_creates demo_lib init_contract demo_creates = 2"
    by (simp add: demo_creates_def demo_simps)
  note t = sessionIds_is_creation_log [of demo_lib demo_creates, unfolded c n]
  from t h l c n show ?thesis
    by blast
qed

text \<open>
  C8.  In a session where neither side has revealed, take a buyer reveal and a seller
  reveal whose clear values verify against the stored handles.  Both calls commit in
  either order; the two orders end with the same session table, hence the same
  \<open>dealMatched\<close>; and both logs end with the two \<open>PriceRevealed\<close> events (in the order of
  the calls) followed by the same settlement: \<open>DealMatched\<close> with the seller's price when
  the seller's price is at most the buyer's, and nothing otherwise.
\<close>

theorem reveal_order_independent:
  fixes lib :: fhe and mb ms :: msg_ctx and sid :: bytes32 and cvb dpb cvs dps :: bytes
    and s :: contract and vb vs :: uint256
  defines "r \<equiv> sessions s sid"
  defines "cb \<equiv> (mb, RevealBuyerPrice sid cvb dpb)"
  defines "cs \<equiv> (ms, RevealSellerPrice sid cvs dps)"
  assumes ex: "timestamp r \<noteq> 0" and nb: "\<not> buyerRevealed r" and ns: "\<not> sellerRevealed r"
    and ab: "msg_sender mb = buyer r" and as: "msg_sender ms = seller r"
    and vfb: "FHE_checkSignatures lib [FHE_toBytes32 lib (encryptedBuyerPrice r)] cvb dpb"
    and vfs: "FHE_checkSignatures lib [FHE_toBytes32 lib (encryptedSellerPrice r)] cvs dps"
    and db: "abi_decode_uint256 cvb = Some vb" and ds: "abi_decode_uint256 cvs = Some vs"
  shows "outcome lib cb s = None \<and> outcome lib cs (step lib cb s) = None \<and>
         outcome lib cs s = None \<and> outcome lib cb (step lib cs s) = None \<and>
         sessions (run lib s [cs, cb]) = sessions (run lib s [cb, cs]) \<and>
         sessionIds (run lib s [cs, cb]) = sessionIds (run lib s [cb, cs]) \<and>
         dealMatched (sessions (run lib s [cs, cb]) sid) =
           dealMatched (sessions (run lib s [cb, cs]) sid) \<and>
         events (run lib s [cb, cs]) =
           events s @ [PriceRevealed sid (buyer r) vb, PriceRevealed sid (seller r) vs]
             @ (if vs \<le> vb then [DealMatched sid vs] else []) \<and>
         events (run lib s [cs, cb]) =
           events s @ [PriceRevealed sid (seller r) vs, PriceRevealed sid (buyer r) vb]
             @ (if vs \<le> vb then [DealMatched sid vs] else [])"
proof -
  let ?b = "step lib cb s" and ?a = "step lib cs s"
  have eb: "exec lib mb (RevealBuyerPrice sid cvb dpb) s = (None,
      s\<lparr>sessions := (sessions s)(sid := r\<lparr>publicBuyerPrice := vb, buyerRevealed := True\<rparr>),
        events := events s @ [PriceRevealed sid (buyer r) vb]\<rparr>)"
    using ex nb ns ab vfb db unfolding exec_revealBuyerPrice r_def by simp
  have es: "exec lib ms (RevealSellerPrice sid cvs dps) s = (None,
      s\<lparr>sessions := (sessions s)(sid := r\<lparr>publicSellerPrice := vs, sellerRevealed := True\<rparr>),
        events := events s @ [PriceRevealed sid (seller r) vs]\<rparr>)"
    using ex nb ns as vfs ds unfolding exec_revealSellerPrice r_def by simp
  have sb: "?b = s\<lparr>sessions := (sessions s)(sid := r\<lparr>publicBuyerPrice := vb, buyerRevealed := True\<rparr>),
        events := events s @ [PriceRevealed sid (buyer r) vb]\<rparr>"
    and ob: "outcome lib cb s = None"
    unfolding step_def outcome_def cb_def fst_conv snd_conv eb by simp_all
  have sa: "?a = s\<lparr>sessions := (sessions s)(sid := r\<lparr>publicSellerPrice := vs, sellerRevealed := True\<rparr>),
        events := events s @ [PriceRevealed sid (seller r) vs]\<rparr>"
    and oa: "outcome lib cs s = None"
    unfolding step_def outcome_def cs_def fst_conv snd_conv es by simp_all
  have ebs: "exec lib ms (RevealSellerPrice sid cvs dps) ?b = (None,
      s\<lparr>sessions := (sessions s)(sid := r\<lparr>publicBuyerPrice := vb, buyerRevealed := True,
            publicSellerPrice := vs, sellerRevealed := True,
            dealMatched := (dealMatched r \<or> vs \<le> vb)\<rparr>),
        events := events s @ [PriceRevealed sid (buyer r) vb, PriceRevealed sid (seller r) vs]
          @ (if vs \<le> vb then [DealMatched sid vs] else [])\<rparr>)"
    using ex nb ns as vfs ds unfolding exec_revealSellerPrice sb r_def by simp
  have esb: "exec lib mb (RevealBuyerPrice sid cvb dpb) ?a = (None,
      s\<lparr>sessions := (sessions s)(sid := r\<lparr>publicSellerPrice := vs, sellerRevealed := True,
            publicBuyerPrice := vb, buyerRevealed := True,
            dealMatched := (dealMatched r \<or> vs \<le> vb)\<rparr>),
        events := events s @ [PriceRevealed sid (seller r) vs, PriceRevealed sid (buyer r) vb]
          @ (if vs \<le> vb then [DealMatched sid vs] else [])\<rparr>)"
    using ex nb ns ab vfb db unfolding exec_revealBuyerPrice sa r_def by simp
  have rbs: "run lib s [cb, cs] = snd (exec lib ms (RevealSellerPrice sid cvs dps) ?b)"
    and obs: "outcome lib cs ?b = fst (exec lib ms (RevealSellerPrice sid cvs dps) ?b)"
    by (simp_all add: step_def outcome_def cs_def del: exec.simps)
  have rsb: "run lib s [cs, cb] = snd (exec lib mb (RevealBuyerPrice sid cvb dpb) ?a)"
    and osb: "outcome lib cb ?a = fst (exec lib mb (RevealBuyerPrice sid cvb dpb) ?a)"
    by (simp_all add: step_def outcome_def cb_def del: exec.simps)
  have swap: "r\<lparr>publicSellerPrice := vs, sellerRevealed := True,
            publicBuyerPrice := vb, buyerRevealed := True,
            dealMatched := (dealMatched r \<or> vs \<le> vb)\<rparr> =
          r\<lparr>publicBuyerPrice := vb, buyerRevealed := True,
            publicSellerPrice := vs, sellerRevealed := True,
            dealMatched := (dealMatched r \<or> vs \<le> vb)\<rparr>"
    by (cases r) simp
  show ?thesis
    unfolding rbs rsb obs osb ebs esb swap using ob oa by simp
qed

theorem reveal_order_independent_witness:
  "(timestamp (sessions (run demo_lib init_contract demo_setup) 1001) \<noteq> 0 \<and>
    \<not> buyerRevealed (sessions (run demo_lib init_contract demo_setup) 1001) \<and>
    \<not> sellerRevealed (sessions (run demo_lib init_contract demo_setup) 1001) \<and>
    abi_decode_uint256 (abi_word 100) = Some 100 \<and> abi_decode_uint256 (abi_word 80) = Some 80) \<and>
   sessions (run demo_lib (run demo_lib init_contract demo_setup) [demo_seller_reveal, demo_buyer_reveal]) =
     sessions (run demo_lib (run demo_lib init_contract demo_setup) [demo_buyer_reveal, demo_seller_reveal]) \<and>
   dealMatched (sessions (run demo_lib (run demo_lib init_contract demo_setup)
       [demo_seller_reveal, demo_buyer_reveal]) 1001) =
     dealMatched (sessions (run demo_lib (run demo_lib init_contract demo_setup)
       [demo_buyer_reveal, demo_seller_reveal]) 1001) \<and>
   events (run demo_lib (run demo_lib init_contract demo_setup) [demo_buyer_reveal, demo_seller_reveal]) =
     events (run demo_lib init_contract demo_setup)
       @ [PriceRevealed 1001 1 100, PriceRevealed 1001 2 80, DealMatched 1001 80] \<and>
   events (run demo_lib (run demo_lib init_contract demo_setup) [demo_seller_reveal, demo_buyer_reveal]) =
     events (run demo_lib init_contract demo_setup)
       @ [PriceRevealed 1001 2 80, PriceRevealed 1001 1 100, DealMatched 1001 80]"
proof -
  let ?S = "run demo_lib init_contract demo_setup"
  let ?mb = "\<lparr>msg_sender = 1, block_timestamp = 1002\<rparr>"
  let ?ms = "\<lparr>msg_sender = 2, block_timestamp = 1003\<rparr>"
  have ex: "timestamp (sessions ?S 1001) \<noteq> 0" and nb: "\<not> buyerRevealed (sessions ?S 1001)"
    and ns: "\<not> sellerRevealed (sessions ?S 1001)"
    and ab: "msg_sender ?mb = buyer (sessions ?S 1001)"
    and as: "msg_sender ?ms = seller (sessions ?S 1001)"
    by (simp_all add: demo_setup_session)
  have vfb: "FHE_checkSignatures demo_lib
      [FHE_toBytes32 demo_lib (encryptedBuyerPrice (sessions ?S 1001))] (abi_word 100) [1]"
    and vfs: "FHE_checkSignatures demo_lib
      [FHE_toBytes32 demo_lib (encryptedSellerPrice (sessions ?S 1001))] (abi_word 80) [1]"
    unfolding demo_setup_session
    by (simp_all add: demo_lib_def take_abi_word be_uint256_abi_word)
  have db: "abi_decode_uint256 (abi_word 100) = Some 100"
    and ds: "abi_decode_uint256 (abi_word 80) = Some 80"
    by (simp_all add: abi_decode_abi_word)
  note t = reveal_order_independent [OF ex nb ns ab as vfb vfs db ds,
      folded demo_buyer_reveal_def demo_seller_reveal_def]
  from t ex nb ns db ds show ?thesis
    by (simp add: demo_setup_session)
qed

subsection \<open>The seller reveals only after a join\<close>

lemma step_seller_joined:
  assumes "inv1 (sessions s sid)"
    and "sellerRevealed (sessions s sid) \<longrightarrow> seller (sessions s sid) \<noteq> 0"
    and "msg_sender (fst mc) \<noteq> 0"
  shows "sellerRevealed (sessions (step lib mc s) sid) \<longrightarrow> seller (sessions (step lib mc s) sid) \<noteq> 0"
  using assms
  apply (cases mc)
  subgoal for m c
    apply (cases c)
           apply (auto simp: step_def transact_def body_defs Let_def inv1_def checkDeal_simps
        word_gt_0 split: option.splits if_splits prod.splits sum.splits)
    done
  done

lemma run_seller_joined:
  assumes "inv1 (sessions s sid)"
    and "sellerRevealed (sessions s sid) \<longrightarrow> seller (sessions s sid) \<noteq> 0"
    and "\<forall>mc \<in> set calls. msg_sender (fst mc) \<noteq> 0"
  shows "sellerRevealed (sessions (run lib s calls) sid) \<longrightarrow>
           seller (sessions (run lib s calls) sid) \<noteq> 0"
  using assms
proof (induction calls arbitrary: s)
  case Nil
  then show ?case by simp
next
  case (Cons mc calls)
  have m: "msg_sender (fst mc) \<noteq> 0" and rest: "\<forall>mc \<in> set calls. msg_sender (fst mc) \<noteq> 0"
    using Cons.prems(3) by simp_all
  from Cons.IH [OF step_inv1 [OF Cons.prems(1)] step_seller_joined [OF Cons.prems(1,2) m] rest]
  show ?case by simp
qed

text \<open>
  C9.  In every state reached by a run from the deployed contract whose callers are all
  different from \<open>address(0)\<close>, a session with \<open>sellerRevealed\<close> has a seller other than
  \<open>address(0)\<close>: it has been joined.  And in any state, \<open>revealSellerPrice\<close> on an existing
  session that has not been joined, called by anyone but \<open>address(0)\<close>, reverts with
  "Only seller can reveal" and changes nothing.
\<close>

theorem seller_reveal_only_after_join:
  assumes "\<forall>mc \<in> set calls. msg_sender (fst mc) \<noteq> 0"
  shows "(sellerRevealed (sessions (run lib init_contract calls) sid) \<longrightarrow>
            seller (sessions (run lib init_contract calls) sid) \<noteq> 0) \<and>
         (timestamp (sessions s sid) \<noteq> 0 \<and> seller (sessions s sid) = 0 \<and> msg_sender m \<noteq> 0 \<longrightarrow>
            exec lib m (RevealSellerPrice sid cv dp) s = (Some OnlySellerCanReveal, s))"
proof
  have "sellerRevealed (sessions init_contract sid) \<longrightarrow> seller (sessions init_contract sid) \<noteq> 0"
    by (simp add: init_contract_def zero_session_def)
  from run_seller_joined [OF init_inv1 this assms]
  show "sellerRevealed (sessions (run lib init_contract calls) sid) \<longrightarrow>
            seller (sessions (run lib init_contract calls) sid) \<noteq> 0" .
next
  show "timestamp (sessions s sid) \<noteq> 0 \<and> seller (sessions s sid) = 0 \<and> msg_sender m \<noteq> 0 \<longrightarrow>
            exec lib m (RevealSellerPrice sid cv dp) s = (Some OnlySellerCanReveal, s)"
    by (simp add: exec_revealSellerPrice del: exec.simps)
qed

theorem seller_reveal_only_after_join_witness:
  "list_all (\<lambda>mc. msg_sender (fst mc) \<noteq> 0) demo_calls \<and>
   sellerRevealed (sessions (run demo_lib init_contract demo_calls) 1001) \<and>
   seller (sessions (run demo_lib init_contract demo_calls) 1001) \<noteq> 0 \<and>
   timestamp (sessions (step demo_lib demo_create init_contract) 1001) \<noteq> 0 \<and>
   seller (sessions (step demo_lib demo_create init_contract) 1001) = 0 \<and>
   msg_sender (fst demo_seller_reveal) \<noteq> 0 \<and>
   exec demo_lib (fst demo_seller_reveal) (RevealSellerPrice 1001 (abi_word 80) [1])
      (step demo_lib demo_create init_contract) =
     (Some OnlySellerCanReveal, step demo_lib demo_create init_contract)"
proof -
  have l: "list_all (\<lambda>mc. msg_sender (fst mc) \<noteq> 0) demo_calls"
    by (simp add: demo_calls_def demo_open_def demo_setup_def demo_create_def demo_join_def
        demo_buyer_reveal_def demo_seller_reveal_def)
  then have h: "\<forall>mc \<in> set demo_calls. msg_sender (fst mc) \<noteq> 0"
    by (simp add: list_all_iff)
  have sr: "sellerRevealed (sessions (run demo_lib init_contract demo_calls) 1001)"
    by (simp add: demo_session)
  have s1: "sessions (step demo_lib demo_create init_contract) 1001 =
     \<lparr>buyer = 1, seller = 0, encryptedBuyerPrice = 100, encryptedSellerPrice = 7,
      publicBuyerPrice = 0, publicSellerPrice = 0, buyerRevealed = False,
      sellerRevealed = False, dealMatched = False, timestamp = 1000\<rparr>"
    by (simp add: demo_simps)
  have u: "timestamp (sessions (step demo_lib demo_create init_contract) 1001) \<noteq> 0"
    "seller (sessions (step demo_lib demo_create init_contract) 1001) = 0"
    "msg_sender (fst demo_seller_reveal) \<noteq> 0"
    by (simp_all add: s1 demo_seller_reveal_def)
  note t = seller_reveal_only_after_join [OF h, where lib = demo_lib and sid = 1001
      and s = "step demo_lib demo_create init_contract" and m = "fst demo_seller_reveal"
      and cv = "abi_word 80" and dp = "[1]"]
  from t l sr u show ?thesis
    by blast
qed

text \<open>
  C10.  A \<open>createSession\<close> that commits stores, besides the buyer's side, the ingested
  seller handle and the provisional seller price it was given, with \<open>seller\<close> left at
  \<open>address(0)\<close>.  A \<open>joinSession\<close> that commits replaces, in that one session, \<open>seller\<close> by
  the caller, \<open>encryptedSellerPrice\<close> by the handle it ingested and \<open>publicSellerPrice\<close> by
  its price, whatever they held; \<open>buyer\<close>, \<open>encryptedBuyerPrice\<close>, \<open>publicBuyerPrice\<close>, the
  three flags and \<open>timestamp\<close> keep their values, and so do every other session and the
  list of session ids.
\<close>

theorem create_stores_seller_side_join_overwrites_it:
  fixes lib :: fhe and m mj :: msg_ctx and eb es es' :: externalEuint32 and bp sp sp' :: bytes
    and pb ps ps' :: uint256 and s s' :: contract and jid :: bytes32
  defines "sid \<equiv> keccak256_packed lib (msg_sender m) (block_timestamp m)"
  defines "x \<equiv> exec lib m (CreateSession eb es bp sp pb ps) s"
  defines "j \<equiv> exec lib mj (JoinSession jid es' sp' ps') s'"
  defines "old \<equiv> sessions s' jid"
  defines "new \<equiv> sessions (snd j) jid"
  shows
    "(fst x = None \<longrightarrow>
        (\<exists>hb hs. FHE_fromExternal lib (msg_sender m) eb bp = Some hb \<and>
                 FHE_fromExternal lib (msg_sender m) es sp = Some hs \<and>
                 sessions (snd x) sid =
                   \<lparr>buyer = msg_sender m, seller = 0,
                    encryptedBuyerPrice = hb, encryptedSellerPrice = hs,
                    publicBuyerPrice = pb, publicSellerPrice = ps,
                    buyerRevealed = False, sellerRevealed = False, dealMatched = False,
                    timestamp = block_timestamp m\<rparr>)) \<and>
     (fst j = None \<longrightarrow>
        (\<exists>h. FHE_fromExternal lib (msg_sender mj) es' sp' = Some h \<and>
             sessions (snd j) = (sessions s')(jid :=
               old\<lparr>seller := msg_sender mj, encryptedSellerPrice := h, publicSellerPrice := ps'\<rparr>)) \<and>
        seller new = msg_sender mj \<and> publicSellerPrice new = ps' \<and>
        buyer new = buyer old \<and> encryptedBuyerPrice new = encryptedBuyerPrice old \<and>
        publicBuyerPrice new = publicBuyerPrice old \<and> buyerRevealed new = buyerRevealed old \<and>
        sellerRevealed new = sellerRevealed old \<and> dealMatched new = dealMatched old \<and>
        timestamp new = timestamp old \<and>
        sessionIds (snd j) = sessionIds s')"
proof (rule conjI)
  show "fst x = None \<longrightarrow>
        (\<exists>hb hs. FHE_fromExternal lib (msg_sender m) eb bp = Some hb \<and>
                 FHE_fromExternal lib (msg_sender m) es sp = Some hs \<and>
                 sessions (snd x) sid =
                   \<lparr>buyer = msg_sender m, seller = 0,
                    encryptedBuyerPrice = hb, encryptedSellerPrice = hs,
                    publicBuyerPrice = pb, publicSellerPrice = ps,
                    buyerRevealed = False, sellerRevealed = False, dealMatched = False,
                    timestamp = block_timestamp m\<rparr>)"
    unfolding x_def sid_def exec_createSession
    by (simp add: Let_def split: option.splits)
next
  show "fst j = None \<longrightarrow>
        (\<exists>h. FHE_fromExternal lib (msg_sender mj) es' sp' = Some h \<and>
             sessions (snd j) = (sessions s')(jid :=
               old\<lparr>seller := msg_sender mj, encryptedSellerPrice := h, publicSellerPrice := ps'\<rparr>)) \<and>
        seller new = msg_sender mj \<and> publicSellerPrice new = ps' \<and>
        buyer new = buyer old \<and> encryptedBuyerPrice new = encryptedBuyerPrice old \<and>
        publicBuyerPrice new = publicBuyerPrice old \<and> buyerRevealed new = buyerRevealed old \<and>
        sellerRevealed new = sellerRevealed old \<and> dealMatched new = dealMatched old \<and>
        timestamp new = timestamp old \<and>
        sessionIds (snd j) = sessionIds s'"
    unfolding new_def old_def j_def exec_joinSession
    by (simp split: option.splits)
qed

theorem create_stores_seller_side_join_overwrites_it_witness:
  "fst (exec demo_lib \<lparr>msg_sender = 1, block_timestamp = 1000\<rparr>
          (CreateSession 100 7 [1] [1] 90 70) init_contract) = None \<and>
   sessions (snd (exec demo_lib \<lparr>msg_sender = 1, block_timestamp = 1000\<rparr>
          (CreateSession 100 7 [1] [1] 90 70) init_contract)) 1001 =
     \<lparr>buyer = 1, seller = 0, encryptedBuyerPrice = 100, encryptedSellerPrice = 7,
      publicBuyerPrice = 90, publicSellerPrice = 70, buyerRevealed = False,
      sellerRevealed = False, dealMatched = False, timestamp = 1000\<rparr> \<and>
   fst (exec demo_lib \<lparr>msg_sender = 2, block_timestamp = 1001\<rparr> (JoinSession 1001 80 [1] 60)
          (snd (exec demo_lib \<lparr>msg_sender = 1, block_timestamp = 1000\<rparr>
             (CreateSession 100 7 [1] [1] 90 70) init_contract))) = None \<and>
   sessions (snd (exec demo_lib \<lparr>msg_sender = 2, block_timestamp = 1001\<rparr> (JoinSession 1001 80 [1] 60)
          (snd (exec demo_lib \<lparr>msg_sender = 1, block_timestamp = 1000\<rparr>
             (CreateSession 100 7 [1] [1] 90 70) init_contract)))) 1001 =
     \<lparr>buyer = 1, seller = 2, encryptedBuyerPrice = 100, encryptedSellerPrice = 80,
      publicBuyerPrice = 90, publicSellerPrice = 60, buyerRevealed = False,
      sellerRevealed = False, dealMatched = False, timestamp = 1000\<rparr>"
proof -
  let ?m = "\<lparr>msg_sender = 1, block_timestamp = 1000\<rparr>"
  let ?mj = "\<lparr>msg_sender = 2, block_timestamp = 1001\<rparr>"
  let ?x = "exec demo_lib ?m (CreateSession 100 7 [1] [1] 90 70) init_contract"
  let ?j = "exec demo_lib ?mj (JoinSession 1001 80 [1] 60) (snd ?x)"
  have k: "keccak256_packed demo_lib (msg_sender ?m) (block_timestamp ?m) = 1001"
    by (simp add: demo_lib_def)
  have lib: "FHE_fromExternal demo_lib (msg_sender ?m) 100 [1] = Some 100"
    "FHE_fromExternal demo_lib (msg_sender ?m) 7 [1] = Some 7"
    "FHE_fromExternal demo_lib (msg_sender ?mj) 80 [1] = Some 80"
    by (simp_all add: demo_lib_def)
  have okx: "fst ?x = None"
    by (simp add: demo_lib_def init_contract_def zero_session_def transact_def createSession_def
        Let_def)
  note t = create_stores_seller_side_join_overwrites_it [where lib = demo_lib and m = ?m
      and mj = ?mj and eb = 100 and es = 7 and bp = "[1]" and sp = "[1]" and pb = 90 and ps = 70
      and s = init_contract and jid = 1001 and es' = 80 and sp' = "[1]" and ps' = 60
      and s' = "snd ?x", unfolded k]
  have sx: "sessions (snd ?x) 1001 =
     \<lparr>buyer = 1, seller = 0, encryptedBuyerPrice = 100, encryptedSellerPrice = 7,
      publicBuyerPrice = 90, publicSellerPrice = 70, buyerRevealed = False,
      sellerRevealed = False, dealMatched = False, timestamp = 1000\<rparr>"
    using t okx lib by (simp del: exec.simps)
  have okj: "fst ?j = None"
    unfolding exec_joinSession sx by (simp add: demo_lib_def)
  have sj: "sessions (snd ?j) 1001 =
     \<lparr>buyer = 1, seller = 2, encryptedBuyerPrice = 100, encryptedSellerPrice = 80,
      publicBuyerPrice = 90, publicSellerPrice = 60, buyerRevealed = False,
      sellerRevealed = False, dealMatched = False, timestamp = 1000\<rparr>"
    using t okj lib sx by (auto simp del: exec.simps)
  from okx sx okj sj show ?thesis
    by (intro conjI)
qed

end
